theory Spec2Isabelle
  imports Complex_Main "HOL-Library.Word"
begin

unbundle bit_operations_syntax

section \<open>Python strings\<close>

text \<open>
  A Python \<open>str\<close> is a sequence of code points. The model reads a \<^typ>\<open>char\<close> as one
  code point in the range 0..255, which covers every text used below (file names, the
  engine's output in the examples). On that range \<open>str.isspace\<close> holds for the ASCII
  white space 9..13 and 32, the separators 28..31, and the code points 0x85 and 0xA0.
\<close>

definition isspace :: "char \<Rightarrow> bool" where
  "isspace c = (of_char c \<in> {9, 10, 11, 12, 13, 28, 29, 30, 31, 32, 133, 160 :: nat})"

definition lstrip :: "string \<Rightarrow> string" where
  "lstrip s = dropWhile isspace s"

definition rstrip :: "string \<Rightarrow> string" where
  "rstrip s = rev (dropWhile isspace (rev s))"

text \<open>\<open>s.strip()\<close>: leading and trailing white space removed.\<close>

definition strip :: "string \<Rightarrow> string" where
  "strip s = rstrip (lstrip s)"

text \<open>
  \<open>s.split(sep)\<close> for a one-character separator: the pieces between the separators,
  empty pieces kept; the empty string gives one empty piece.
\<close>

fun split :: "char \<Rightarrow> string \<Rightarrow> string list" where
  "split sep [] = [[]]"
| "split sep (c # cs) =
     (if c = sep then [] # split sep cs
      else (case split sep cs of
              [] \<Rightarrow> [[c]]
            | l # ls \<Rightarrow> (c # l) # ls))"

text \<open>\<open>sep.join(xs)\<close>.\<close>

fun join :: "string \<Rightarrow> string list \<Rightarrow> string" where
  "join sep [] = []"
| "join sep [x] = x"
| "join sep (x # y # ys) = x @ sep @ join sep (y # ys)"

section \<open>transcriber.py: cleaning the engine's output\<close>

text \<open>
  Lines 41--43 of \<open>transcribe\<close>:
  \<^verbatim>\<open>
    text = result.stdout.strip()
    lines = [line.strip() for line in text.split('\n') if line.strip()]
    return ' '.join(lines)
  \<close>
  A string is truthy when it is not empty.
\<close>

definition clean_output :: "string \<Rightarrow> string" where
  "clean_output stdout =
     (let text = strip stdout;
          lines = map strip (filter (\<lambda>line. strip line \<noteq> []) (split (CHR 0x0A) text))
      in join '' '' lines)"

text \<open>
  The normalisation as the specification words it: trim each line of the output, drop
  the lines that are empty after trimming, join the rest with one space.
\<close>

definition spec_normalize :: "string \<Rightarrow> string" where
  "spec_normalize stdout =
     join '' '' (filter (\<lambda>l. l \<noteq> []) (map strip (split (CHR 0x0A) stdout)))"

section \<open>Errors and outcomes\<close>

text \<open>The exceptions the modelled code raises or meets.\<close>

datatype py_error =
  FileNotFoundError | PortAudioError | ValueError | IndexError | OSError | TimeoutExpired

text \<open>
  A call either returns a value, raises, or never returns (a child process that does not
  exit, waited for without a timeout).
\<close>

datatype 'a outcome = Returned 'a | Raised py_error | Blocked

section \<open>The external engine\<close>

text \<open>
  What the child process does once started: it exits after some seconds with a return
  code and its standard output, it never exits, or its executable cannot be started.
  \<open>subprocess.run(..., timeout=t)\<close> raises \<open>TimeoutExpired\<close> when the process is still
  running after \<open>t\<close> seconds and \<open>FileNotFoundError\<close> when the executable is missing;
  without a timeout it waits for the exit.
\<close>

datatype engine_behaviour = Exits nat int string | Hangs | Missing

fun subprocess_run :: "nat option \<Rightarrow> engine_behaviour \<Rightarrow> (int \<times> string) outcome" where
  "subprocess_run timeout (Exits secs returncode stdout) =
     (case timeout of
        None \<Rightarrow> Returned (returncode, stdout)
      | Some t \<Rightarrow> if secs > t then Raised TimeoutExpired else Returned (returncode, stdout))"
| "subprocess_run timeout Hangs =
     (case timeout of None \<Rightarrow> Blocked | Some t \<Rightarrow> Raised TimeoutExpired)"
| "subprocess_run timeout Missing = Raised FileNotFoundError"

section \<open>transcriber.py: transcribe\<close>

text \<open>
  \<^verbatim>\<open>
    if not MODEL_PATH.exists():
        raise FileNotFoundError(f"Model not found: {MODEL_PATH}")
    result = subprocess.run(["nice", "-n", "10", "whisper-cli", ...],
                            capture_output=True, text=True)
    if result.returncode != 0:
        return ""
    ... (the cleaning above)
  \<close>
  The first argument says whether the model file exists; the second is the behaviour of
  the child process. No timeout is passed.
\<close>

definition transcribe :: "bool \<Rightarrow> engine_behaviour \<Rightarrow> string outcome" where
  "transcribe model_exists engine =
     (if \<not> model_exists then Raised FileNotFoundError
      else (case subprocess_run None engine of
              Raised e \<Rightarrow> Raised e
            | Blocked \<Rightarrow> Blocked
            | Returned (returncode, stdout) \<Rightarrow>
                if returncode \<noteq> 0 then Returned [] else Returned (clean_output stdout)))"

section \<open>backend/server.py: RecorderState.transcribe\<close>

text \<open>
  \<^verbatim>\<open>
    try:
        result = subprocess.run([...], capture_output=True, text=True, timeout=120)
        if result.returncode != 0:
            return None
        text = ' '.join([l.strip() for l in result.stdout.strip().split('\n') if l.strip()])
        self.last_transcript = text
        return text
    except subprocess.TimeoutExpired: return None
    except FileNotFoundError: return None
    except Exception as e: return None
  \<close>
  The result is \<open>None\<close> or a string; the second component is the new
  \<open>last_transcript\<close>.
\<close>

definition srv_transcribe ::
  "string option \<Rightarrow> engine_behaviour \<Rightarrow> (string option \<times> string option) outcome" where
  "srv_transcribe last_transcript engine =
     (case subprocess_run (Some 120) engine of
        Raised e \<Rightarrow> Returned (None, last_transcript)
      | Blocked \<Rightarrow> Blocked
      | Returned (returncode, stdout) \<Rightarrow>
          if returncode \<noteq> 0 then Returned (None, last_transcript)
          else (let text = join '' ''
                      (map strip (filter (\<lambda>l. strip l \<noteq> [])
                         (split (CHR 0x0A) (strip stdout))))
                in Returned (Some text, Some text)))"

text \<open>Truthiness of an optional string, as \<open>if not transcript\<close> tests it.\<close>

fun truthy_text :: "string option \<Rightarrow> bool" where
  "truthy_text None = False"
| "truthy_text (Some s) = (s \<noteq> [])"

section \<open>recorder.py: Recorder\<close>

text \<open>
  One block of input frames, as the audio callback receives it (mono, one sample per
  frame). The level metric shown in the user interface is left out.
\<close>

type_synonym block = "real list"

text \<open>
  The fields of \<open>Recorder\<close>. \<open>stream\<close> holds the handle of the \<open>sd.InputStream\<close> the
  recorder opened, or \<open>None\<close>.
\<close>

record Recorder =
  recording :: bool
  audio_data :: "block list"
  stream :: "nat option"

text \<open>
  The audio system the recorder talks to: whether an input device can be opened, the
  handles of the input streams that are started and not yet closed, and the next fresh
  handle. Every open stream is one live capture session.
\<close>

record audio_system =
  device_present :: bool
  open_streams :: "nat list"
  next_handle :: nat

text \<open>
  \<^verbatim>\<open>
    def start(self):
        self.audio_data = []
        self.recording = True
        self.current_level = 0.0
        self.stream = sd.InputStream(samplerate=SAMPLE_RATE, channels=CHANNELS, ...)
        self.stream.start()
  \<close>
  \<open>sd.InputStream\<close> raises \<open>PortAudioError\<close> when no input device can be opened
  (\<open>backend/server.py\<close> catches it around the same call); the two assignments before it
  have happened by then.
\<close>

definition Recorder_start ::
  "audio_system \<Rightarrow> Recorder \<Rightarrow> (audio_system \<times> Recorder) \<times> py_error option" where
  "Recorder_start a r =
     (let r1 = r\<lparr>audio_data := [], recording := True\<rparr>
      in if device_present a
         then (let h = next_handle a
               in ((a\<lparr>open_streams := h # open_streams a, next_handle := h + 1\<rparr>,
                    r1\<lparr>stream := Some h\<rparr>), None))
         else ((a, r1), Some PortAudioError))"

text \<open>
  \<^verbatim>\<open>
    def _callback(self, indata, frames, time, status):
        if self.recording:
            self.audio_data.append(indata.copy())
  \<close>
\<close>

definition Recorder_callback :: "Recorder \<Rightarrow> block \<Rightarrow> Recorder" where
  "Recorder_callback r indata =
     (if recording r then r\<lparr>audio_data := audio_data r @ [indata]\<rparr> else r)"

text \<open>
  \<^verbatim>\<open>
    def stop(self):
        self.recording = False
        if self.stream:
            self.stream.stop(); self.stream.close(); self.stream = None
        if not self.audio_data:
            return None
        audio = np.concatenate(self.audio_data, axis=0)
        duration = len(audio) / SAMPLE_RATE
        temp_file = tempfile.NamedTemporaryFile(suffix=".wav", delete=False)
        ... (the samples are written to it)
        return Path(temp_file.name), duration
  \<close>
  Temporary files are a list of (path, samples); a fresh path is one more than every
  path in use. The result is \<open>None\<close> or the path and the duration in seconds.
\<close>

definition SAMPLE_RATE :: nat where
  "SAMPLE_RATE = 16000"

definition fresh_path :: "(nat \<times> block) list \<Rightarrow> nat" where
  "fresh_path temps = fold (\<lambda>(p, _) m. max (p + 1) m) temps 0"

definition Recorder_stop ::
  "audio_system \<Rightarrow> (nat \<times> block) list \<Rightarrow> Recorder \<Rightarrow>
     (audio_system \<times> (nat \<times> block) list \<times> Recorder) \<times> (nat \<times> real) option" where
  "Recorder_stop a temps r =
     (let r1 = r\<lparr>recording := False\<rparr>;
          (a2, r2) = (case stream r1 of
                        Some h \<Rightarrow> (a\<lparr>open_streams := removeAll h (open_streams a)\<rparr>,
                                   r1\<lparr>stream := None\<rparr>)
                      | None \<Rightarrow> (a, r1))
      in if audio_data r2 = [] then ((a2, temps, r2), None)
         else (let audio = concat (audio_data r2);
                   duration = real (length audio) / real SAMPLE_RATE;
                   temp_file = fresh_path temps
               in ((a2, temps @ [(temp_file, audio)], r2), Some (temp_file, duration))))"

section \<open>app.py: WhisperDictateApp\<close>

text \<open>
  The state of the application and of what it acts on: the fields of
  \<open>WhisperDictateApp\<close> (\<open>is_recording\<close>, \<open>hold_key_pressed\<close>, \<open>status\<close>, \<open>recorder\<close>), the
  audio system, the temporary files, the \<open>do_transcribe\<close> threads that were started
  and have not ended (each with its \<open>audio_path\<close> and \<open>duration\<close>), the audio paths
  the engine was run on, the commands the hotkey callback has handed to a timer, and
  the names in the training-data directory. Sounds, notifications and the menu's texts
  are left out.
\<close>

datatype command = Toggle | Start | Stop

record app =
  is_recording :: bool
  hold_key_pressed :: bool
  status :: string
  recorder :: Recorder
  audio :: audio_system
  temp_files :: "(nat \<times> block) list"
  threads :: "(nat \<times> real) list"
  engine_runs :: "nat list"
  timers :: "command list"
  data_dir :: "string list"

text \<open>The state \<open>__init__\<close> leaves, with an input device present or not.\<close>

definition init :: "bool \<Rightarrow> app" where
  "init dev =
     \<lparr>is_recording = False, hold_key_pressed = False, status = ''ready'',
      recorder = \<lparr>recording = False, audio_data = [], stream = None\<rparr>,
      audio = \<lparr>device_present = dev, open_streams = [], next_handle = 0\<rparr>,
      temp_files = [], threads = [], engine_runs = [], timers = [], data_dir = []\<rparr>"

definition update_status :: "string \<Rightarrow> app \<Rightarrow> app" where
  "update_status st s = s\<lparr>status := st\<rparr>"

text \<open>
  \<^verbatim>\<open>
    def start_recording(self):
        if self.is_recording:
            return
        self.is_recording = True
        self.update_status("recording")
        self.play_sound("start")
        self.recorder.start()
  \<close>
  The second component is the exception that leaves the call, if any.
\<close>

definition start_recording :: "app \<Rightarrow> app \<times> py_error option" where
  "start_recording s =
     (if is_recording s then (s, None)
      else (let s1 = update_status ''recording'' (s\<lparr>is_recording := True\<rparr>);
                ((a, r), e) = Recorder_start (audio s1) (recorder s1)
            in (s1\<lparr>audio := a, recorder := r\<rparr>, e)))"

text \<open>
  \<^verbatim>\<open>
    def stop_recording(self):
        if not self.is_recording:
            return
        self.is_recording = False
        self.play_sound("stop")
        self.update_status("transcribing")
        result = self.recorder.stop()
        if not result:
            self.update_status("ready")
            return
        audio_path, duration = result
        def do_transcribe(): ...
        Thread(target=do_transcribe, daemon=True).start()
  \<close>
\<close>

definition stop_recording :: "app \<Rightarrow> app \<times> py_error option" where
  "stop_recording s =
     (if \<not> is_recording s then (s, None)
      else (let s1 = update_status ''transcribing'' (s\<lparr>is_recording := False\<rparr>);
                ((a, temps, r), result) =
                   Recorder_stop (audio s1) (temp_files s1) (recorder s1);
                s2 = s1\<lparr>audio := a, temp_files := temps, recorder := r\<rparr>
            in (case result of
                  None \<Rightarrow> (update_status ''ready'' s2, None)
                | Some (audio_path, duration) \<Rightarrow>
                    (s2\<lparr>threads := threads s2 @ [(audio_path, duration)]\<rparr>, None))))"

text \<open>
  \<^verbatim>\<open>
    def toggle_recording(self, _=None):
        if self.is_recording:
            self.stop_recording()
        else:
            self.start_recording()
  \<close>
\<close>

definition toggle_recording :: "app \<Rightarrow> app \<times> py_error option" where
  "toggle_recording s = (if is_recording s then stop_recording s else start_recording s)"

fun run_command :: "command \<Rightarrow> app \<Rightarrow> app \<times> py_error option" where
  "run_command Toggle s = toggle_recording s"
| "run_command Start s = start_recording s"
| "run_command Stop s = stop_recording s"

section \<open>File names and numbers\<close>

text \<open>
  \<open>DATA_DIR.glob("audio_*.wav")\<close>: the names of the directory that start with
  \<open>audio_\<close> and end with \<open>.wav\<close>, the star standing for any text, also none.
\<close>

definition startswith :: "string \<Rightarrow> string \<Rightarrow> bool" where
  "startswith s p = (take (length p) s = p)"

definition endswith :: "string \<Rightarrow> string \<Rightarrow> bool" where
  "endswith s p = (length p \<le> length s \<and> drop (length s - length p) s = p)"

definition glob_audio_wav :: "string list \<Rightarrow> string list" where
  "glob_audio_wav dir =
     filter (\<lambda>name. length ''audio_'' + length ''.wav'' \<le> length name \<and>
                     startswith name ''audio_'' \<and> endswith name ''.wav'') dir"

text \<open>
  \<open>Path.stem\<close>: the name without its last suffix. The suffix starts at the last dot,
  when that dot is neither the first nor the last character of the name.
\<close>

definition path_stem :: "string \<Rightarrow> string" where
  "path_stem name =
     (let after = length (takeWhile (\<lambda>c. c \<noteq> CHR ''.'') (rev name))
      in if after < length name \<and> 0 < after \<and> after + 1 < length name
         then take (length name - after - 1) name
         else name)"

text \<open>\<open>xs[1]\<close>, which raises \<open>IndexError\<close> on a list of fewer than two elements.\<close>

fun second :: "'a list \<Rightarrow> py_error + 'a" where
  "second (x # y # ys) = Inr y"
| "second xs = Inl IndexError"

text \<open>
  \<open>int(s)\<close> on a text without underscores (the pieces of a split at underscores have
  none): white space around is dropped, one sign is allowed, and at least one decimal
  digit must follow and nothing else. The white space \<open>int\<close> drops is not that of
  \<open>str.strip\<close>: on the code points 0..255 it is 9..13, 32, 0x85 and 0xA0, and the
  separators 28..31 make \<open>int\<close> raise \<open>ValueError\<close>.
\<close>

definition int_space :: "char \<Rightarrow> bool" where
  "int_space c = (of_char c \<in> {9, 10, 11, 12, 13, 32, 133, 160 :: nat})"

definition is_decimal :: "char \<Rightarrow> bool" where
  "is_decimal c = (48 \<le> (of_char c :: nat) \<and> (of_char c :: nat) \<le> 57)"

definition digits_value :: "string \<Rightarrow> int" where
  "digits_value ds = fold (\<lambda>c acc. 10 * acc + (int (of_char c) - 48)) ds 0"

definition py_int :: "string \<Rightarrow> py_error + int" where
  "py_int s =
     (let t = rev (dropWhile int_space (rev (dropWhile int_space s)));
          (neg, body) = (case t of
                           c # cs \<Rightarrow> if c = CHR ''-'' then (True, cs)
                                     else if c = CHR ''+'' then (False, cs)
                                     else (False, t)
                         | [] \<Rightarrow> (False, t))
      in if body \<noteq> [] \<and> list_all is_decimal body
         then Inr (if neg then - digits_value body else digits_value body)
         else Inl ValueError)"

text \<open>
  \<open>str.isdigit\<close> on the code points 0..255: the ten decimal digits and the superscript
  digits 0xB2, 0xB3 and 0xB9; false for the empty string.
\<close>

definition isdigit :: "string \<Rightarrow> bool" where
  "isdigit s = (s \<noteq> [] \<and>
     list_all (\<lambda>c. is_decimal c \<or> of_char c \<in> {178, 179, 185 :: nat}) s)"

text \<open>The format \<open>{num:06d}\<close>: decimal, padded with zeros to six characters, sign included.\<close>

fun digits_of :: "nat \<Rightarrow> string" where
  "digits_of n =
     (if n < 10 then [char_of (48 + n)]
      else digits_of (n div 10) @ [char_of (48 + n mod 10)])"

definition fmt_06d :: "int \<Rightarrow> string" where
  "fmt_06d num =
     (if num < 0
      then (let ds = digits_of (nat (- num))
            in CHR ''-'' # replicate (5 - length ds) (CHR ''0'') @ ds)
      else (let ds = digits_of (nat num)
            in replicate (6 - length ds) (CHR ''0'') @ ds))"

definition audio_name :: "int \<Rightarrow> string" where
  "audio_name num = ''audio_'' @ fmt_06d num"

section \<open>Saving an entry\<close>

text \<open>
  The number of the next entry in \<open>save_training_data\<close> of \<open>app.py\<close>:
  \<^verbatim>\<open>
    existing = list(DATA_DIR.glob("audio_*.wav"))
    if not existing:
        num = 1
    else:
        numbers = [int(f.stem.split('_')[1]) for f in existing]
        num = max(numbers) + 1
  \<close>
\<close>

definition file_number :: "string \<Rightarrow> py_error + int" where
  "file_number name =
     (case second (split (CHR ''_'') (path_stem name)) of
        Inl e \<Rightarrow> Inl e
      | Inr piece \<Rightarrow> py_int piece)"

fun numbers_of :: "string list \<Rightarrow> py_error + int list" where
  "numbers_of [] = Inr []"
| "numbers_of (f # fs) =
     (case file_number f of
        Inl e \<Rightarrow> Inl e
      | Inr n \<Rightarrow> (case numbers_of fs of Inl e \<Rightarrow> Inl e | Inr ns \<Rightarrow> Inr (n # ns)))"

fun max_list :: "int list \<Rightarrow> int" where
  "max_list [] = 0"
| "max_list [x] = x"
| "max_list (x # y # ys) = max x (max_list (y # ys))"

definition next_num :: "string list \<Rightarrow> py_error + int" where
  "next_num dir =
     (let existing = glob_audio_wav dir
      in if existing = [] then Inr 1
         else (case numbers_of existing of
                 Inl e \<Rightarrow> Inl e
               | Inr numbers \<Rightarrow> Inr (max_list numbers + 1)))"

text \<open>
  The same step in \<open>save_transcript\<close> of \<open>backend/server.py\<close>:
  \<^verbatim>\<open>
    existing = list(DATA_DIR.glob("audio_*.wav"))
    nums = [int(f.stem.split('_')[1]) for f in existing if f.stem.split('_')[1].isdigit()]
    num = max(nums, default=0) + 1
  \<close>
\<close>

fun srv_nums :: "string list \<Rightarrow> py_error + int list" where
  "srv_nums [] = Inr []"
| "srv_nums (f # fs) =
     (case second (split (CHR ''_'') (path_stem f)) of
        Inl e \<Rightarrow> Inl e
      | Inr piece \<Rightarrow>
          if isdigit piece
          then (case py_int piece of
                  Inl e \<Rightarrow> Inl e
                | Inr n \<Rightarrow> (case srv_nums fs of Inl e \<Rightarrow> Inl e | Inr ns \<Rightarrow> Inr (n # ns)))
          else srv_nums fs)"

definition srv_next_num :: "string list \<Rightarrow> py_error + int" where
  "srv_next_num dir =
     (case srv_nums (glob_audio_wav dir) of
        Inl e \<Rightarrow> Inl e
      | Inr nums \<Rightarrow> Inr ((if nums = [] then 0 else max_list nums) + 1))"

text \<open>
  The files \<open>save_training_data\<close> writes once the number is known: the audio file is moved
  to \<open>audio_NNNNNN.wav\<close>, the text goes to \<open>audio_NNNNNN.txt\<close>, the raw text to
  \<open>audio_NNNNNN_raw.txt\<close> when the text was edited, and \<open>manifest.json\<close> is written.
  A name that exists is overwritten. File contents are left out.
\<close>

definition add_file :: "string \<Rightarrow> string list \<Rightarrow> string list" where
  "add_file name dir = (if name \<in> set dir then dir else dir @ [name])"

definition entry_files :: "int \<Rightarrow> bool \<Rightarrow> string list" where
  "entry_files num was_edited =
     [audio_name num @ ''.wav'', audio_name num @ ''.txt''] @
     (if was_edited then [audio_name num @ ''_raw.txt''] else []) @
     [''manifest.json'']"

text \<open>
  The disk during a save: every write succeeds, or the first \<open>k\<close> writes succeed and the
  next one raises \<open>OSError\<close>, leaving its file behind (truncated) or not.
\<close>

datatype disk = Works | Fails nat bool

text \<open>
  \<open>save_training_data\<close> on the state, after the number is computed:
  \<^verbatim>\<open>
    shutil.move(str(audio_path), str(audio_dest))
    text_dest.write_text(final_text)
    if was_edited:
        raw_dest.write_text(raw_text)
    ... (the manifest is read, extended and written)
  \<close>
  A failure of the number's parse or of a write leaves the call as an exception, with the
  files written so far in the directory; the move raises \<open>FileNotFoundError\<close> when the
  temporary file does not exist; the temporary file is gone once the move is done. The
  result carries the number assigned.
\<close>

definition save_training_data ::
  "disk \<Rightarrow> app \<Rightarrow> nat \<Rightarrow> bool \<Rightarrow> app \<times> (py_error + int)" where
  "save_training_data d s audio_path was_edited =
     (case next_num (data_dir s) of
        Inl e \<Rightarrow> (s, Inl e)
      | Inr num \<Rightarrow>
          if audio_path \<notin> fst ` set (temp_files s) then (s, Inl FileNotFoundError)
          else
          (let files = entry_files num was_edited;
               moved = s\<lparr>temp_files := filter (\<lambda>(p, _). p \<noteq> audio_path) (temp_files s)\<rparr>
           in case d of
                Works \<Rightarrow> (moved\<lparr>data_dir := fold add_file files (data_dir s)\<rparr>, Inr num)
              | Fails k partial \<Rightarrow>
                  if k < length files
                  then (let written = take k files @ (if partial then [files ! k] else [])
                        in ((if k = 0 then s else moved)
                              \<lparr>data_dir := fold add_file written (data_dir s)\<rparr>,
                            Inl OSError))
                  else (moved\<lparr>data_dir := fold add_file files (data_dir s)\<rparr>, Inr num)))"

section \<open>popup.py: TranscriptionPopup\<close>

text \<open>
  The dictionary the popup returns. The key \<open>text\<close> is the field \<open>final_text\<close> here; the key
  \<open>needs_review\<close> is absent from the dictionary \<open>onCancel_\<close> builds.
\<close>

record popup_result =
  action :: string
  final_text :: string
  was_edited :: bool
  needs_review :: "bool option"

record TranscriptionPopup =
  original_text :: string
  text_view :: string
  result :: popup_result

text \<open>
  What the user does while the window is modal: a key goes to the text view
  (\<open>keyDown_\<close>, with the key code, the modifier flags and the text the view holds once
  its own handling of the key is done), or the Done button is clicked.
\<close>

datatype ui_event = KeyPress int "64 word" string | DoneButton

text \<open>
  The part of \<open>show\<close> before the window is built:
  \<^verbatim>\<open>
    self.original_text = transcription
    self.result = {'action': 'cancel', 'text': transcription,
                   'was_edited': False, 'needs_review': False}
    ...
    self.text_view.setString_(transcription)
  \<close>
\<close>

definition show_init :: "string \<Rightarrow> TranscriptionPopup" where
  "show_init transcription =
     \<lparr>original_text = transcription, text_view = transcription,
      result = \<lparr>action = ''cancel'', final_text = transcription, was_edited = False,
                needs_review = Some False\<rparr>\<rparr>"

text \<open>
  \<^verbatim>\<open>
    def onDone_(self, sender):
        text = self._get_text()
        was_edited = self._was_edited()     # self._get_text() != self.original_text
        ...
        self.result = {'action': 'done', 'text': text, 'was_edited': was_edited,
                       'needs_review': not was_edited}
        self._close()
    def onCancel_(self, sender):
        self.result = {'action': 'cancel', 'text': self.original_text, 'was_edited': False}
        self._close()
  \<close>
\<close>

definition onDone :: "TranscriptionPopup \<Rightarrow> TranscriptionPopup" where
  "onDone p =
     (let text = text_view p;
          edited = (text_view p \<noteq> original_text p)
      in p\<lparr>result := \<lparr>action = ''done'', final_text = text, was_edited = edited,
                       needs_review = Some (\<not> edited)\<rparr>\<rparr>)"

definition onCancel :: "TranscriptionPopup \<Rightarrow> TranscriptionPopup" where
  "onCancel p =
     p\<lparr>result := \<lparr>action = ''cancel'', final_text = original_text p, was_edited = False,
                   needs_review = None\<rparr>\<rparr>"

text \<open>
  The modal session. \<open>keyDown_\<close> of the text view:
  \<^verbatim>\<open>
    if event.keyCode() == 36 and not (event.modifierFlags() & (1 << 17)):
        if self.popup: self.popup.onDone_(None)
        return
    if event.keyCode() == 53:
        if self.popup: self.popup.onCancel_(None)
        return
    super().keyDown_(event)
  \<close>
  \<open>show\<close> sets the view's \<open>popup\<close>, so that the two tests of it succeed. \<open>onDone_\<close> and
  \<open>onCancel_\<close> stop the modal session (\<open>_close\<close>); a session that ends in another way
  (the list of events is used up) leaves \<open>result\<close> as \<open>show\<close> set it.
\<close>

fun modal :: "TranscriptionPopup \<Rightarrow> ui_event list \<Rightarrow> TranscriptionPopup" where
  "modal p [] = p"
| "modal p (DoneButton # es) = onDone p"
| "modal p (KeyPress keyCode modifierFlags after # es) =
     (if keyCode = 36 \<and> \<not> (modifierFlags AND push_bit 17 1 \<noteq> 0) then onDone p
      else if keyCode = 53 then onCancel p
      else modal (p\<lparr>text_view := after\<rparr>) es)"

definition show_transcription_popup :: "string \<Rightarrow> ui_event list \<Rightarrow> popup_result" where
  "show_transcription_popup transcription events = result (modal (show_init transcription) events)"

section \<open>app.py: the transcription thread\<close>

text \<open>
  What a \<open>do_transcribe\<close> thread meets: whether the model file exists, how the engine's
  process behaves, what the user does in the popup, and how the disk takes the writes
  of a save.
\<close>

record thread_env =
  model_exists :: bool
  engine :: engine_behaviour
  user :: "ui_event list"
  disk_state :: disk

text \<open>How a thread ends: it returns, an exception ends it, or it waits for ever.\<close>

datatype completion = Finished | Died py_error | Never

text \<open>\<open>os.unlink(path)\<close> on the temporary files.\<close>

definition os_unlink :: "nat \<Rightarrow> app \<Rightarrow> py_error + app" where
  "os_unlink path s =
     (if path \<in> fst ` set (temp_files s)
      then Inr (s\<lparr>temp_files := filter (\<lambda>(p, _). p \<noteq> path) (temp_files s)\<rparr>)
      else Inl FileNotFoundError)"

text \<open>
  \<^verbatim>\<open>
    def do_transcribe():
        text = transcribe(audio_path)
        if text:
            self.play_sound("done")
            result = show_transcription_popup(text, duration)
            if result['action'] == 'save':
                self.save_training_data(audio_path, result['text'], text, duration,
                                        result['was_edited'])
            elif result['action'] == 'copy':
                pass
            else:
                os.unlink(audio_path)
        else:
            os.unlink(audio_path)
            rumps.notification(...)
        self.update_status("ready")
  \<close>
  The engine is run when \<open>transcribe\<close> gets past its check of the model file.
\<close>

definition do_transcribe :: "thread_env \<Rightarrow> nat \<times> real \<Rightarrow> app \<Rightarrow> app \<times> completion" where
  "do_transcribe env job s =
     (let audio_path = fst job;
          s1 = (if model_exists env then s\<lparr>engine_runs := engine_runs s @ [audio_path]\<rparr>
                else s)
      in case transcribe (model_exists env) (engine env) of
           Raised e \<Rightarrow> (s1, Died e)
         | Blocked \<Rightarrow> (s1, Never)
         | Returned text \<Rightarrow>
             if text \<noteq> [] then
               (let r = show_transcription_popup text (user env)
                in if action r = ''save'' then
                     (case save_training_data (disk_state env) s1 audio_path (was_edited r) of
                        (s2, Inl e) \<Rightarrow> (s2, Died e)
                      | (s2, Inr num) \<Rightarrow> (update_status ''ready'' s2, Finished))
                   else if action r = ''copy'' then (update_status ''ready'' s1, Finished)
                   else (case os_unlink audio_path s1 of
                           Inl e \<Rightarrow> (s1, Died e)
                         | Inr s2 \<Rightarrow> (update_status ''ready'' s2, Finished)))
             else (case os_unlink audio_path s1 of
                     Inl e \<Rightarrow> (s1, Died e)
                   | Inr s2 \<Rightarrow> (update_status ''ready'' s2, Finished)))"

section \<open>app.py: the hotkey callback\<close>

datatype key_event = KeyDown int | KeyUp int

record config =
  toggle_key :: "int option"
  hold_key :: "int option"

text \<open>
  \<open>setup_hotkeys\<close> installs the callback unless both keys are falsy (\<open>None\<close> or 0) or the
  event tap cannot be created:
  \<^verbatim>\<open>
    if not toggle_key and not hold_key:
        return
    ...
    if tap is None:
        return
  \<close>
\<close>

fun truthy_key :: "int option \<Rightarrow> bool" where
  "truthy_key None = False"
| "truthy_key (Some k) = (k \<noteq> 0)"

definition setup_hotkeys :: "config \<Rightarrow> bool \<Rightarrow> bool" where
  "setup_hotkeys cfg tap_created =
     (if \<not> truthy_key (toggle_key cfg) \<and> \<not> truthy_key (hold_key cfg) then False
      else tap_created)"

text \<open>
  \<^verbatim>\<open>
    def callback(proxy, event_type, event, refcon):
        keycode = CGEventGetIntegerValueField(event, kCGKeyboardEventKeycode)
        if event_type == kCGEventKeyDown:
            if keycode == toggle_key:
                rumps.Timer(lambda _: self.toggle_recording(), 0).start()
            elif keycode == hold_key and not self.hold_key_pressed:
                self.hold_key_pressed = True
                rumps.Timer(lambda _: self.start_recording(), 0).start()
        elif event_type == kCGEventKeyUp:
            if keycode == hold_key and self.hold_key_pressed:
                self.hold_key_pressed = False
                rumps.Timer(lambda _: self.stop_recording(), 0).start()
        return event
  \<close>
  The command given to a timer is appended to \<open>timers\<close>; it runs when the timer fires.
\<close>

fun callback :: "config \<Rightarrow> key_event \<Rightarrow> app \<Rightarrow> app" where
  "callback cfg (KeyDown keycode) s =
     (if Some keycode = toggle_key cfg then s\<lparr>timers := timers s @ [Toggle]\<rparr>
      else if Some keycode = hold_key cfg \<and> \<not> hold_key_pressed s
        then s\<lparr>hold_key_pressed := True, timers := timers s @ [Start]\<rparr>
      else s)"
| "callback cfg (KeyUp keycode) s =
     (if Some keycode = hold_key cfg \<and> hold_key_pressed s
        then s\<lparr>hold_key_pressed := False, timers := timers s @ [Stop]\<rparr>
      else s)"

section \<open>app.py: runs\<close>

text \<open>
  What can happen to the application, one at a time: a key event reaches the event tap;
  the oldest pending timer fires and runs its command; one of the three methods is
  called directly (the menu item calls \<open>toggle_recording\<close>); the open stream delivers a
  block of audio; the thread at a position of \<open>threads\<close> runs to its end in a given
  environment; an input device is plugged in or removed. An exception that leaves a
  timer's or the menu's call is dropped by the event loop, the state staying as the
  call left it.
\<close>

datatype input =
    Key key_event
  | TimerFires
  | Call command
  | AudioBlock block
  | ThreadEnds nat thread_env
  | Device bool

definition end_thread :: "nat \<Rightarrow> thread_env \<Rightarrow> app \<Rightarrow> app" where
  "end_thread i env s =
     (if i < length (threads s)
      then (let job = threads s ! i;
                rest = take i (threads s) @ drop (Suc i) (threads s)
            in fst (do_transcribe env job (s\<lparr>threads := rest\<rparr>)))
      else s)"

fun step :: "config \<Rightarrow> bool \<Rightarrow> app \<Rightarrow> input \<Rightarrow> app" where
  "step cfg tap s (Key ev) = (if setup_hotkeys cfg tap then callback cfg ev s else s)"
| "step cfg tap s TimerFires =
     (case timers s of
        [] \<Rightarrow> s
      | c # cs \<Rightarrow> fst (run_command c (s\<lparr>timers := cs\<rparr>)))"
| "step cfg tap s (Call c) = fst (run_command c s)"
| "step cfg tap s (AudioBlock indata) =
     (if stream (recorder s) \<noteq> None
      then s\<lparr>recorder := Recorder_callback (recorder s) indata\<rparr>
      else s)"
| "step cfg tap s (ThreadEnds i env) = end_thread i env s"
| "step cfg tap s (Device d) = s\<lparr>audio := (audio s)\<lparr>device_present := d\<rparr>\<rparr>"

fun run :: "config \<Rightarrow> bool \<Rightarrow> app \<Rightarrow> input list \<Rightarrow> app" where
  "run cfg tap s [] = s"
| "run cfg tap s (i # is) = run cfg tap (step cfg tap s i) is"

section \<open>panokeet_final.py: Panokeet\<close>

text \<open>
  The fields of \<open>Panokeet\<close> (\<open>recording\<close>, \<open>audio_data\<close>, \<open>stream\<close>, \<open>hold_active\<close>), the
  audio system, and the number of \<open>_process_audio\<close> threads started.
\<close>

record Panokeet =
  pf_recording :: bool
  pf_audio_data :: "block list"
  pf_stream :: "nat option"
  pf_hold_active :: bool
  pf_audio :: audio_system
  pf_threads :: nat

definition pf_init :: "bool \<Rightarrow> Panokeet" where
  "pf_init dev =
     \<lparr>pf_recording = False, pf_audio_data = [], pf_stream = None, pf_hold_active = False,
      pf_audio = \<lparr>device_present = dev, open_streams = [], next_handle = 0\<rparr>,
      pf_threads = 0\<rparr>"

text \<open>
  \<^verbatim>\<open>
    def start_recording(self):
        if self.recording:
            return
        self.audio_data = []
        self.recording = True
        ...
        self.stream = sd.InputStream(samplerate=SAMPLE_RATE, channels=1, ...)
        self.stream.start()
        self.play_sound("start")
  \<close>
\<close>

definition pf_start_recording :: "Panokeet \<Rightarrow> Panokeet \<times> py_error option" where
  "pf_start_recording p =
     (if pf_recording p then (p, None)
      else (let p1 = p\<lparr>pf_audio_data := [], pf_recording := True\<rparr>;
                a = pf_audio p1
            in if device_present a
               then (let h = next_handle a
                     in (p1\<lparr>pf_stream := Some h,
                            pf_audio := a\<lparr>open_streams := h # open_streams a,
                                          next_handle := h + 1\<rparr>\<rparr>, None))
               else (p1, Some PortAudioError)))"

text \<open>
  \<^verbatim>\<open>
    def stop_recording(self):
        if not self.recording:
            return
        self.recording = False
        self.play_sound("stop")
        if self.stream:
            self.stream.stop(); self.stream.close(); self.stream = None
        if not self.audio_data:
            return
        Thread(target=self._process_audio, daemon=True).start()
  \<close>
\<close>

definition pf_stop_recording :: "Panokeet \<Rightarrow> Panokeet" where
  "pf_stop_recording p =
     (if \<not> pf_recording p then p
      else (let p1 = p\<lparr>pf_recording := False\<rparr>;
                p2 = (case pf_stream p1 of
                        Some h \<Rightarrow>
                          p1\<lparr>pf_stream := None,
                             pf_audio := (pf_audio p1)
                               \<lparr>open_streams := removeAll h (open_streams (pf_audio p1))\<rparr>\<rparr>
                      | None \<Rightarrow> p1)
            in if pf_audio_data p2 = [] then p2
               else p2\<lparr>pf_threads := pf_threads p2 + 1\<rparr>))"

text \<open>
  \<^verbatim>\<open>
    def event_callback(proxy, event_type, event, refcon):
        keycode = CGEventGetIntegerValueField(event, kCGKeyboardEventKeycode)
        if event_type == kCGEventKeyDown:
            if keycode == F13_KEYCODE:
                if app.recording: app.stop_recording()
                else: app.start_recording()
            elif keycode == F14_KEYCODE and not app.hold_active:
                app.hold_active = True
                app.start_recording()
        elif event_type == kCGEventKeyUp:
            if keycode == F14_KEYCODE and app.hold_active:
                app.hold_active = False
                app.stop_recording()
        return event
  \<close>
  An exception that leaves \<open>start_recording\<close> leaves the callback; the state stays as
  it is then.
\<close>

definition F13_KEYCODE :: int where
  "F13_KEYCODE = 105"

definition F14_KEYCODE :: int where
  "F14_KEYCODE = 107"

fun event_callback :: "key_event \<Rightarrow> Panokeet \<Rightarrow> Panokeet" where
  "event_callback (KeyDown keycode) p =
     (if keycode = F13_KEYCODE
        then (if pf_recording p then pf_stop_recording p else fst (pf_start_recording p))
      else if keycode = F14_KEYCODE \<and> \<not> pf_hold_active p
        then fst (pf_start_recording (p\<lparr>pf_hold_active := True\<rparr>))
      else p)"
| "event_callback (KeyUp keycode) p =
     (if keycode = F14_KEYCODE \<and> pf_hold_active p
        then pf_stop_recording (p\<lparr>pf_hold_active := False\<rparr>)
      else p)"

text \<open>A run: key events, blocks of audio from the open stream, the device coming and going.\<close>

datatype pf_input = PfKey key_event | PfAudio block | PfDevice bool

fun pf_step :: "Panokeet \<Rightarrow> pf_input \<Rightarrow> Panokeet" where
  "pf_step p (PfKey ev) = event_callback ev p"
| "pf_step p (PfAudio indata) =
     (if pf_stream p \<noteq> None \<and> pf_recording p
      then p\<lparr>pf_audio_data := pf_audio_data p @ [indata]\<rparr>
      else p)"
| "pf_step p (PfDevice d) = p\<lparr>pf_audio := (pf_audio p)\<lparr>device_present := d\<rparr>\<rparr>"

fun pf_run :: "Panokeet \<Rightarrow> pf_input list \<Rightarrow> Panokeet" where
  "pf_run p [] = p"
| "pf_run p (i # is) = pf_run (pf_step p i) is"

section \<open>panokeet_v3.py: check_modifiers\<close>

text \<open>
  The modifier masks are constants of AppKit, not of this repository; they are a
  parameter here. \<open>modifierFlags\<close> is an unsigned 64-bit integer.
\<close>

record modifier_masks =
  NSCommandKeyMask :: "64 word"
  NSShiftKeyMask :: "64 word"
  NSAlternateKeyMask :: "64 word"
  NSControlKeyMask :: "64 word"

text \<open>The values AppKit gives them: bits 20, 17, 19 and 18.\<close>

definition appkit_masks :: modifier_masks where
  "appkit_masks =
     \<lparr>NSCommandKeyMask = push_bit 20 1, NSShiftKeyMask = push_bit 17 1,
      NSAlternateKeyMask = push_bit 19 1, NSControlKeyMask = push_bit 18 1\<rparr>"

text \<open>
  \<^verbatim>\<open>
    def check_modifiers(self, event, required_mods):
        """Check if the required modifier keys are pressed."""
        flags = event.modifierFlags()
        has_cmd = bool(flags & NSCommandKeyMask)
        has_shift = bool(flags & NSShiftKeyMask)
        has_opt = bool(flags & NSAlternateKeyMask)
        has_ctrl = bool(flags & NSControlKeyMask)
        for mod in required_mods:
            if mod == "cmd" and not has_cmd: return False
            if mod == "shift" and not has_shift: return False
            if mod == "opt" and not has_opt: return False
            if mod == "ctrl" and not has_ctrl: return False
        return True
  \<close>
\<close>

definition has_cmd :: "modifier_masks \<Rightarrow> 64 word \<Rightarrow> bool" where
  "has_cmd m flags = (flags AND NSCommandKeyMask m \<noteq> 0)"

definition has_shift :: "modifier_masks \<Rightarrow> 64 word \<Rightarrow> bool" where
  "has_shift m flags = (flags AND NSShiftKeyMask m \<noteq> 0)"

definition has_opt :: "modifier_masks \<Rightarrow> 64 word \<Rightarrow> bool" where
  "has_opt m flags = (flags AND NSAlternateKeyMask m \<noteq> 0)"

definition has_ctrl :: "modifier_masks \<Rightarrow> 64 word \<Rightarrow> bool" where
  "has_ctrl m flags = (flags AND NSControlKeyMask m \<noteq> 0)"

fun check_modifiers :: "modifier_masks \<Rightarrow> 64 word \<Rightarrow> string list \<Rightarrow> bool" where
  "check_modifiers m flags [] = True"
| "check_modifiers m flags (md # required_mods) =
     (if md = ''cmd'' \<and> \<not> has_cmd m flags then False
      else if md = ''shift'' \<and> \<not> has_shift m flags then False
      else if md = ''opt'' \<and> \<not> has_opt m flags then False
      else if md = ''ctrl'' \<and> \<not> has_ctrl m flags then False
      else check_modifiers m flags required_mods)"

text \<open>
  The test of a binding in \<open>handle_key_down\<close>:
  \<open>keycode == toggle_key and self.check_modifiers(event, toggle_mods)\<close>.
\<close>

definition binding_matches ::
  "modifier_masks \<Rightarrow> int \<Rightarrow> 64 word \<Rightarrow> int \<Rightarrow> string list \<Rightarrow> bool" where
  "binding_matches m keycode flags key mods = (keycode = key \<and> check_modifiers m flags mods)"

section \<open>dictate.py: DictationApp\<close>

text \<open>
  The key handlers of \<open>dictate.py\<close>. A key is one of the three Command keys, a key with a
  virtual key code (\<open>key.vk\<close>), Escape, or another key. The state holds the fields
  \<open>is_recording\<close>, \<open>cmd_pressed\<close>, \<open>numpad8_held\<close> and \<open>status\<close>, the recorder (the same class
  as in \<open>recorder.py\<close>) with the audio system, the number of \<open>_stop_and_save\<close> threads
  started, and whether \<open>quit_event\<close> is set. The body of \<open>_stop_and_save\<close> is not
  modelled.
\<close>

datatype pynput_key = CmdKey | VkKey int | EscKey | OtherKey

record DictationApp =
  d_is_recording :: bool
  d_cmd_pressed :: bool
  d_numpad8_held :: bool
  d_status :: string
  d_recorder :: Recorder
  d_audio :: audio_system
  d_stop_threads :: nat
  d_quit :: bool

definition NUMPAD_7 :: int where
  "NUMPAD_7 = 89"

definition NUMPAD_8 :: int where
  "NUMPAD_8 = 91"

text \<open>
  \<^verbatim>\<open>
    def _start_recording(self, mode):
        if not self.is_recording:
            self.is_recording = True
            self.status = "recording"
            self.recorder.start()
  \<close>
\<close>

definition d_start_recording :: "DictationApp \<Rightarrow> DictationApp \<times> py_error option" where
  "d_start_recording s =
     (if \<not> d_is_recording s
      then (let s1 = s\<lparr>d_is_recording := True, d_status := ''recording''\<rparr>;
                ((a, r), e) = Recorder_start (d_audio s1) (d_recorder s1)
            in (s1\<lparr>d_audio := a, d_recorder := r\<rparr>, e))
      else (s, None))"

text \<open>
  \<^verbatim>\<open>
    def on_press(self, key):
        try:
            if key in (keyboard.Key.cmd, keyboard.Key.cmd_l, keyboard.Key.cmd_r):
                self.cmd_pressed = True
            if self.cmd_pressed and self._is_numpad_7(key):
                if self.is_recording:
                    Thread(target=self._stop_and_save, daemon=True).start()
                else:
                    self._start_recording("toggle")
            if self.cmd_pressed and self._is_numpad_8(key):
                if not self.is_recording:
                    self.numpad8_held = True
                    self._start_recording("hold")
        except AttributeError:
            pass
  \<close>
  An exception of the recorder leaves the handler with the state as it is then; a key
  is one key, so that at most one of the two tests of a key code holds.
\<close>

definition on_press :: "pynput_key \<Rightarrow> DictationApp \<Rightarrow> DictationApp" where
  "on_press key s =
     (let s1 = (if key = CmdKey then s\<lparr>d_cmd_pressed := True\<rparr> else s);
          s2 = (if d_cmd_pressed s1 \<and> key = VkKey NUMPAD_7
                then (if d_is_recording s1
                      then s1\<lparr>d_stop_threads := d_stop_threads s1 + 1\<rparr>
                      else fst (d_start_recording s1))
                else s1)
      in if d_cmd_pressed s2 \<and> key = VkKey NUMPAD_8
         then (if \<not> d_is_recording s2
               then fst (d_start_recording (s2\<lparr>d_numpad8_held := True\<rparr>))
               else s2)
         else s2)"

text \<open>
  \<^verbatim>\<open>
    def on_release(self, key):
        try:
            if key in (keyboard.Key.cmd, keyboard.Key.cmd_l, keyboard.Key.cmd_r):
                self.cmd_pressed = False
                if self.numpad8_held and self.is_recording:
                    self.numpad8_held = False
                    Thread(target=self._stop_and_save, daemon=True).start()
            if self._is_numpad_8(key):
                if self.numpad8_held and self.is_recording:
                    self.numpad8_held = False
                    Thread(target=self._stop_and_save, daemon=True).start()
            if key == keyboard.Key.esc:
                self.quit_event.set()
                return False
        except AttributeError:
            pass
  \<close>
\<close>

definition on_release :: "pynput_key \<Rightarrow> DictationApp \<Rightarrow> DictationApp" where
  "on_release key s =
     (let s1 = (if key = CmdKey
                then (let s0 = s\<lparr>d_cmd_pressed := False\<rparr>
                      in if d_numpad8_held s0 \<and> d_is_recording s0
                         then s0\<lparr>d_numpad8_held := False,
                                 d_stop_threads := d_stop_threads s0 + 1\<rparr>
                         else s0)
                else s);
          s2 = (if key = VkKey NUMPAD_8
                then (if d_numpad8_held s1 \<and> d_is_recording s1
                      then s1\<lparr>d_numpad8_held := False,
                              d_stop_threads := d_stop_threads s1 + 1\<rparr>
                      else s1)
                else s1)
      in if key = EscKey then s2\<lparr>d_quit := True\<rparr> else s2)"

section \<open>Notions used in the statements\<close>

text \<open>The modifiers an event has pressed, among the four the bindings can name.\<close>

definition event_mods :: "modifier_masks \<Rightarrow> 64 word \<Rightarrow> string set" where
  "event_mods m flags =
     (if has_cmd m flags then {''cmd''} else {}) \<union>
     (if has_shift m flags then {''shift''} else {}) \<union>
     (if has_opt m flags then {''opt''} else {}) \<union>
     (if has_ctrl m flags then {''ctrl''} else {})"


definition pf_inv :: "Panokeet \<Rightarrow> bool" where
  "pf_inv p =
     (open_streams (pf_audio p) = (case pf_stream p of None \<Rightarrow> [] | Some h \<Rightarrow> [h]) \<and>
      (pf_recording p \<or> pf_stream p = None))"


text \<open>The stripped, non-empty lines of a text.\<close>

definition stripped_lines :: "string \<Rightarrow> string list" where
  "stripped_lines s = filter (\<lambda>l. l \<noteq> []) (map strip (split (CHR 0x0A) s))"

text \<open>
  A cancel path of the popup: among the user's events, Escape comes before any Done (the
  button, or Enter without Shift), or the session ends with neither.
\<close>

fun cancel_path :: "ui_event list \<Rightarrow> bool" where
  "cancel_path [] = True"
| "cancel_path (DoneButton # es) = False"
| "cancel_path (KeyPress keyCode modifierFlags after # es) =
     (if keyCode = 36 \<and> \<not> (modifierFlags AND push_bit 17 1 \<noteq> 0) then False
      else if keyCode = 53 then True
      else cancel_path es)"

text \<open>
  Two states with the same recording session: the same flags, recorder, audio system,
  threads and timers; the status is the same or has become \<open>ready\<close>.
\<close>

definition same_session :: "app \<Rightarrow> app \<Rightarrow> bool" where
  "same_session s s' =
     (is_recording s' = is_recording s \<and> recorder s' = recorder s \<and> audio s' = audio s \<and>
      threads s' = threads s \<and> timers s' = timers s \<and>
      hold_key_pressed s' = hold_key_pressed s \<and>
      (status s' = status s \<or> status s' = ''ready''))"

text \<open>
  The invariant of the runs: the open streams are exactly the recorder's stream, a stream
  is held only while \<open>is_recording\<close> is set, and the status \<open>transcribing\<close> is shown only
  while \<open>is_recording\<close> is not set.
\<close>

definition session_inv :: "app \<Rightarrow> bool" where
  "session_inv s =
     (open_streams (audio s) = (case stream (recorder s) of None \<Rightarrow> [] | Some h \<Rightarrow> [h]) \<and>
      (is_recording s \<or> stream (recorder s) = None) \<and>
      \<not> (is_recording s \<and> status s = ''transcribing''))"

text \<open>
  The name of the audio file of the entry with a given number, as \<open>save_training_data\<close>
  and \<open>save_transcript\<close> build it: \<open>f"audio_{num:06d}.wav"\<close>.
\<close>

definition wav_name :: "nat \<Rightarrow> string" where
  "wav_name i = audio_name (int i) @ ''.wav''"

text \<open>One more than the greatest of the existing numbers, and 1 when there is none.\<close>

definition next_id :: "nat list \<Rightarrow> nat" where
  "next_id ids = (if ids = [] then 1 else Max (set ids) + 1)"

section \<open>Facts about the string functions\<close>

lemma split_not_Nil: "split sep s \<noteq> []"
  by (induction s) (auto split: list.splits)

lemma split_Cons_other:
  "c \<noteq> sep \<Longrightarrow> split sep (c # cs) = (c # hd (split sep cs)) # tl (split sep cs)"
  using split_not_Nil [of sep cs] by (cases "split sep cs") auto

lemma split_snoc:
  "split sep (s @ [c]) =
     (if c = sep then split sep s @ [[]]
      else butlast (split sep s) @ [last (split sep s) @ [c]])"
proof (induction s)
  case Nil
  show ?case by simp
next
  case (Cons a s)
  obtain l ls where L: "split sep s = l # ls"
    using split_not_Nil [of sep s] by (cases "split sep s") auto
  obtain k ks where K: "split sep (s @ [c]) = k # ks"
    using split_not_Nil [of sep "s @ [c]"] by (cases "split sep (s @ [c])") auto
  show ?case
  proof (cases "c = sep")
    case True
    with Cons L show ?thesis by (auto split: list.splits)
  next
    case False
    with Cons L K show ?thesis
      by (cases ls) (auto split: list.splits if_splits)
  qed
qed

lemma strip_Cons_space: "isspace c \<Longrightarrow> strip (c # s) = strip s"
  by (simp add: strip_def lstrip_def)

lemma strip_snoc_space:
  assumes "isspace c"
  shows "strip (s @ [c]) = strip s"
proof (cases "\<forall>x\<in>set s. isspace x")
  case True
  then have a: "dropWhile isspace (s @ [c]) = []" and b: "dropWhile isspace s = []"
    using assms by simp_all
  show ?thesis by (simp only: strip_def lstrip_def a b)
next
  case False
  then obtain x where "x \<in> set s" "\<not> isspace x" by blast
  then have "dropWhile isspace (s @ [c]) = dropWhile isspace s @ [c]"
    by (rule dropWhile_append1)
  then show ?thesis using assms by (simp add: strip_def lstrip_def rstrip_def)
qed

lemma isspace_newline: "isspace (CHR 0x0A)"
  by (simp add: isspace_def)

lemma stripped_lines_Cons_space:
  assumes "isspace c"
  shows "stripped_lines (c # s) = stripped_lines s"
proof (cases "c = CHR 0x0A")
  case True
  then show ?thesis by (simp add: stripped_lines_def strip_def lstrip_def rstrip_def)
next
  case False
  obtain l ls where L: "split (CHR 0x0A) s = l # ls"
    using split_not_Nil [of "CHR 0x0A" s] by (cases "split (CHR 0x0A) s") auto
  with False assms show ?thesis
    by (simp add: stripped_lines_def strip_Cons_space)
qed

lemma stripped_lines_snoc_space:
  assumes "isspace c"
  shows "stripped_lines (s @ [c]) = stripped_lines s"
proof (cases "c = CHR 0x0A")
  case True
  then show ?thesis
    by (simp add: stripped_lines_def split_snoc strip_def lstrip_def rstrip_def)
next
  case False
  let ?L = "split (CHR 0x0A) s"
  have ne: "?L \<noteq> []" by (rule split_not_Nil)
  have "stripped_lines (s @ [c]) =
          filter (\<lambda>l. l \<noteq> []) (map strip (butlast ?L @ [last ?L @ [c]]))"
    using False by (simp add: stripped_lines_def split_snoc)
  also have "\<dots> = filter (\<lambda>l. l \<noteq> []) (map strip (butlast ?L @ [last ?L]))"
    using assms by (simp add: strip_snoc_space)
  also have "\<dots> = stripped_lines s"
    using ne by (simp add: stripped_lines_def)
  finally show ?thesis .
qed

lemma stripped_lines_lstrip: "stripped_lines (lstrip s) = stripped_lines s"
  by (induction s) (simp_all add: lstrip_def stripped_lines_Cons_space)

lemma stripped_lines_rstrip: "stripped_lines (rstrip s) = stripped_lines s"
proof (induction s rule: rev_induct)
  case Nil
  show ?case by (simp add: rstrip_def)
next
  case (snoc c s)
  show ?case
  proof (cases "isspace c")
    case True
    then have "rstrip (s @ [c]) = rstrip s" by (simp add: rstrip_def)
    with snoc True show ?thesis by (simp add: stripped_lines_snoc_space)
  next
    case False
    then have "rstrip (s @ [c]) = s @ [c]" by (simp add: rstrip_def)
    then show ?thesis by simp
  qed
qed

lemma stripped_lines_strip: "stripped_lines (strip s) = stripped_lines s"
  by (simp add: strip_def stripped_lines_rstrip stripped_lines_lstrip)

lemma map_strip_filter:
  "map strip (filter (\<lambda>line. strip line \<noteq> []) ls) = filter (\<lambda>l. l \<noteq> []) (map strip ls)"
  by (induction ls) simp_all

lemma clean_output_stripped_lines: "clean_output s = join '' '' (stripped_lines s)"
proof -
  have "clean_output s = join '' '' (stripped_lines (strip s))"
    by (simp add: clean_output_def stripped_lines_def map_strip_filter)
  then show ?thesis by (simp add: stripped_lines_strip)
qed

section \<open>Facts about the two transcribe functions\<close>

text \<open>
  \<open>RecorderState.transcribe\<close> of \<open>backend/server.py\<close> always returns, and returns \<open>None\<close>
  on a timeout, on a return code other than 0 and on a missing executable.
\<close>

lemma srv_transcribe_returns: "\<exists>r. srv_transcribe lt behaviour = Returned r"
  by (cases behaviour) (simp_all add: srv_transcribe_def Let_def)

lemma srv_transcribe_failures:
  "srv_transcribe lt Hangs = Returned (None, lt)"
  "srv_transcribe lt Missing = Returned (None, lt)"
  "120 < secs \<Longrightarrow> srv_transcribe lt (Exits secs returncode out) = Returned (None, lt)"
  "returncode \<noteq> 0 \<Longrightarrow> srv_transcribe lt (Exits secs returncode out) = Returned (None, lt)"
  by (simp_all add: srv_transcribe_def)

text \<open>
  \<open>transcribe\<close> of \<open>transcriber.py\<close> returns the empty text on a return code other than 0,
  when the model file exists and the process exits.
\<close>

lemma transcribe_nonzero_exit:
  "returncode \<noteq> 0 \<Longrightarrow> transcribe True (Exits secs returncode out) = Returned []"
  by (simp add: transcribe_def)

section \<open>Facts about the popup\<close>

text \<open>The popup returns the action \<open>done\<close> or \<open>cancel\<close>, never \<open>save\<close> or \<open>copy\<close>.\<close>

lemma modal_action:
  "action (result p) = ''cancel'' \<Longrightarrow>
     action (result (modal p evs)) = ''done'' \<or> action (result (modal p evs)) = ''cancel''"
  by (induction p evs rule: modal.induct) (simp_all add: onDone_def onCancel_def Let_def)

lemma show_transcription_popup_action:
  "action (show_transcription_popup t evs) = ''done'' \<or>
   action (show_transcription_popup t evs) = ''cancel''"
  using modal_action [of "show_init t" evs]
  by (simp add: show_transcription_popup_def show_init_def)

lemma modal_result:
  assumes "original_text p = t"
    and "result p =
           \<lparr>action = ''cancel'', final_text = t, was_edited = False, needs_review = Some False\<rparr>"
  shows "was_edited (result (modal p evs)) = (final_text (result (modal p evs)) \<noteq> t) \<and>
         (if cancel_path evs
          then action (result (modal p evs)) = ''cancel'' \<and>
               final_text (result (modal p evs)) = t \<and>
               \<not> was_edited (result (modal p evs))
          else action (result (modal p evs)) = ''done'' \<and> original_text (modal p evs) = t)"
  using assms
proof (induction p evs rule: modal.induct)
  case (1 p)
  then show ?case by simp
next
  case (2 p es)
  then show ?case by (simp add: onDone_def Let_def)
next
  case (3 p keyCode modifierFlags after es)
  then show ?case by (simp add: onDone_def onCancel_def Let_def)
qed

section \<open>Facts about the recording session\<close>

lemma start_recording_noop: "is_recording s \<Longrightarrow> start_recording s = (s, None)"
  by (simp add: start_recording_def)

lemma stop_recording_noop: "\<not> is_recording s \<Longrightarrow> stop_recording s = (s, None)"
  by (simp add: stop_recording_def)

lemma session_inv_init: "session_inv (init dev)"
  by (simp add: session_inv_def init_def)

lemma session_inv_start: "session_inv s \<Longrightarrow> session_inv (fst (start_recording s))"
  by (simp add: session_inv_def start_recording_def Recorder_start_def update_status_def Let_def
      split: option.splits)

lemma session_inv_stop: "session_inv s \<Longrightarrow> session_inv (fst (stop_recording s))"
  by (simp add: session_inv_def stop_recording_def Recorder_stop_def update_status_def Let_def
      split: option.splits)

lemma session_inv_command: "session_inv s \<Longrightarrow> session_inv (fst (run_command c s))"
  by (cases c) (simp_all add: toggle_recording_def session_inv_start session_inv_stop)

lemma same_session_save: "same_session s (fst (save_training_data d s p e))"
  by (cases "next_num (data_dir s)")
     (simp_all add: save_training_data_def same_session_def Let_def split: disk.splits)

lemma same_session_save_ready:
  "same_session s (update_status ''ready'' (fst (save_training_data d s p e)))"
  by (cases "next_num (data_dir s)")
     (simp_all add: save_training_data_def same_session_def update_status_def Let_def
        split: disk.splits)

lemma same_session_unlink:
  "same_session s (case os_unlink p s of Inl e \<Rightarrow> s | Inr s2 \<Rightarrow> update_status ''ready'' s2)"
  by (simp add: os_unlink_def same_session_def update_status_def)

lemma same_session_runs:
  "same_session s (if b then s\<lparr>engine_runs := engine_runs s @ [p]\<rparr> else s)"
  by (simp add: same_session_def)

lemma same_session_trans: "same_session s s1 \<Longrightarrow> same_session s1 s2 \<Longrightarrow> same_session s s2"
  by (auto simp: same_session_def)

lemma same_session_ready: "same_session s (update_status ''ready'' s)"
  by (simp add: same_session_def update_status_def)

lemma do_transcribe_body:
  "same_session st
     (fst (case transcribe m g of
           Raised e \<Rightarrow> (st, Died e)
         | Blocked \<Rightarrow> (st, Never)
         | Returned text \<Rightarrow>
             if text \<noteq> [] then
               (let r = show_transcription_popup text u
                in if action r = ''save'' then
                     (case save_training_data d st audio_path (was_edited r) of
                        (s2, Inl e) \<Rightarrow> (s2, Died e)
                      | (s2, Inr num) \<Rightarrow> (update_status ''ready'' s2, Finished))
                   else if action r = ''copy'' then (update_status ''ready'' st, Finished)
                   else (case os_unlink audio_path st of
                           Inl e \<Rightarrow> (st, Died e)
                         | Inr s2 \<Rightarrow> (update_status ''ready'' s2, Finished)))
             else (case os_unlink audio_path st of
                     Inl e \<Rightarrow> (st, Died e)
                   | Inr s2 \<Rightarrow> (update_status ''ready'' s2, Finished))))"
proof (cases "transcribe m g")
  case (Raised e)
  then show ?thesis by (simp add: same_session_def)
next
  case Blocked
  then show ?thesis by (simp add: same_session_def)
next
  case (Returned tx)
  have u: "same_session st (fst (case os_unlink audio_path st of
                     Inl e \<Rightarrow> (st, Died e)
                   | Inr s2 \<Rightarrow> (update_status ''ready'' s2, Finished)))"
    using same_session_unlink [of st audio_path] by (cases "os_unlink audio_path st") simp_all
  have sv: "same_session st (fst (case save_training_data d st audio_path w of
                        (s2, Inl e) \<Rightarrow> (s2, Died e)
                      | (s2, Inr num) \<Rightarrow> (update_status ''ready'' s2, Finished)))" for w
  proof (cases "save_training_data d st audio_path w")
    case (Pair s2 r)
    then show ?thesis
      using same_session_save [of st d audio_path w] same_session_save_ready [of st d audio_path w]
      by (cases r) simp_all
  qed
  show ?thesis
  proof (cases "tx = []")
    case True
    with Returned u show ?thesis by simp
  next
    case False
    with Returned u sv show ?thesis by (simp add: Let_def same_session_ready)
  qed
qed

lemma same_session_do_transcribe: "same_session s (fst (do_transcribe env job s))"
proof -
  let ?st = "if model_exists env then s\<lparr>engine_runs := engine_runs s @ [fst job]\<rparr> else s"
  have a: "same_session s ?st" by (rule same_session_runs)
  have b: "same_session ?st (fst (do_transcribe env job s))"
    using do_transcribe_body [where st = ?st
       and m = "model_exists env" and g = "engine env" and u = "user env" and d = "disk_state env"
       and audio_path = "fst job"]
    unfolding do_transcribe_def Let_def .
  show ?thesis by (rule same_session_trans [OF a b])
qed

lemma session_inv_same_session: "session_inv s \<Longrightarrow> same_session s s' \<Longrightarrow> session_inv s'"
  by (auto simp: session_inv_def same_session_def)

lemma session_inv_end_thread: "session_inv s \<Longrightarrow> session_inv (end_thread i env s)"
proof (cases "i < length (threads s)")
  case False
  assume "session_inv s"
  with False show ?thesis by (simp add: end_thread_def)
next
  case True
  assume inv: "session_inv s"
  let ?s0 = "s\<lparr>threads := take i (threads s) @ drop (Suc i) (threads s)\<rparr>"
  have "session_inv ?s0" using inv by (simp add: session_inv_def)
  then have "session_inv (fst (do_transcribe env (threads s ! i) ?s0))"
    using same_session_do_transcribe by (rule session_inv_same_session)
  with True show ?thesis by (simp add: end_thread_def Let_def)
qed

lemma session_inv_callback: "session_inv s \<Longrightarrow> session_inv (callback cfg ev s)"
  by (cases ev) (simp_all add: session_inv_def)

lemma session_inv_step: "session_inv s \<Longrightarrow> session_inv (step cfg tap s i)"
proof (cases i)
  case (Key ev)
  assume "session_inv s"
  with Key show ?thesis by (simp add: session_inv_callback)
next
  case TimerFires
  assume inv: "session_inv s"
  show ?thesis
  proof (cases "timers s")
    case Nil
    with TimerFires inv show ?thesis by simp
  next
    case (Cons c cs)
    have "session_inv (s\<lparr>timers := cs\<rparr>)" using inv by (simp add: session_inv_def)
    then have "session_inv (fst (run_command c (s\<lparr>timers := cs\<rparr>)))"
      by (rule session_inv_command)
    with TimerFires Cons show ?thesis by simp
  qed
next
  case (Call c)
  assume "session_inv s"
  with Call show ?thesis by (simp add: session_inv_command)
next
  case (AudioBlock b)
  assume "session_inv s"
  with AudioBlock show ?thesis by (simp add: session_inv_def Recorder_callback_def)
next
  case (ThreadEnds n env)
  assume "session_inv s"
  with ThreadEnds show ?thesis by (simp add: session_inv_end_thread)
next
  case (Device d)
  assume "session_inv s"
  with Device show ?thesis by (simp add: session_inv_def)
qed

lemma session_inv_run: "session_inv s \<Longrightarrow> session_inv (run cfg tap s inputs)"
  by (induction inputs arbitrary: s) (simp_all add: session_inv_step)

lemma session_inv_reachable: "session_inv (run cfg tap (init dev) inputs)"
  by (rule session_inv_run) (rule session_inv_init)

lemma pf_inv_start: "pf_inv p \<Longrightarrow> pf_inv (fst (pf_start_recording p))"
  by (simp add: pf_inv_def pf_start_recording_def Let_def split: option.splits)

lemma pf_inv_stop: "pf_inv p \<Longrightarrow> pf_inv (pf_stop_recording p)"
  by (simp add: pf_inv_def pf_stop_recording_def Let_def split: option.splits)

lemma pf_inv_latch: "pf_inv p \<Longrightarrow> pf_inv (p\<lparr>pf_hold_active := b\<rparr>)"
  by (simp add: pf_inv_def)

lemma pf_inv_callback: "pf_inv p \<Longrightarrow> pf_inv (event_callback ev p)"
  by (cases ev) (simp_all add: pf_inv_start pf_inv_stop pf_inv_latch)

lemma pf_inv_step: "pf_inv p \<Longrightarrow> pf_inv (pf_step p i)"
  by (cases i) (simp_all add: pf_inv_callback, simp_all add: pf_inv_def)

lemma pf_inv_run: "pf_inv p \<Longrightarrow> pf_inv (pf_run p inputs)"
  by (induction inputs arbitrary: p) (simp_all add: pf_inv_step)

lemma pf_inv_reachable: "pf_inv (pf_run (pf_init dev) inputs)"
  by (rule pf_inv_run) (simp add: pf_inv_def pf_init_def)

lemma inv_open_streams: "session_inv s \<Longrightarrow> length (open_streams (audio s)) \<le> 1"
  by (simp add: session_inv_def split: option.splits)

lemma pf_inv_open_streams: "pf_inv p \<Longrightarrow> length (open_streams (pf_audio p)) \<le> 1"
  by (simp add: pf_inv_def split: option.splits)

section \<open>Facts about the handlers of dictate.py\<close>

text \<open>
  In \<open>dictate.py\<close> a press of the hold key while a session is recording changes nothing,
  the latch included, and a release of the hold key with the latch not set changes
  nothing: there a hold key pressed during a toggle session does not stop it.
\<close>

lemma dictate_hold_down_while_recording:
  "d_is_recording s \<Longrightarrow> on_press (VkKey NUMPAD_8) s = s"
  by (simp add: on_press_def NUMPAD_7_def NUMPAD_8_def)

lemma dictate_hold_up_unlatched:
  "\<not> d_numpad8_held s \<Longrightarrow> on_release (VkKey NUMPAD_8) s = s"
  by (simp add: on_release_def)

text \<open>A press of the toggle key while recording starts a \<open>_stop_and_save\<close> thread there too.\<close>

lemma dictate_toggle_down_while_recording:
  "d_is_recording s \<Longrightarrow> d_cmd_pressed s \<Longrightarrow>
     on_press (VkKey NUMPAD_7) s = s\<lparr>d_stop_threads := d_stop_threads s + 1\<rparr>"
  by (simp add: on_press_def NUMPAD_7_def NUMPAD_8_def)

section \<open>Facts about file names and numbers\<close>

declare digits_of.simps [simp del]

lemma of_char_digit: "d < 10 \<Longrightarrow> (of_char (char_of (48 + d :: nat)) :: nat) = 48 + d"
  by simp

lemma digits_of_decimal: "list_all is_decimal (digits_of n)"
proof (induction n rule: digits_of.induct)
  case (1 n)
  show ?case
  proof (cases "n < 10")
    case True
    then show ?thesis by (subst digits_of.simps) (simp add: is_decimal_def)
  next
    case False
    have "n mod 10 < 10" by simp
    then have "is_decimal (char_of (48 + n mod 10))"
      unfolding is_decimal_def by (simp only: of_char_digit) simp
    with False 1 show ?thesis by (subst digits_of.simps) simp
  qed
qed

lemma digits_of_not_Nil: "digits_of n \<noteq> []"
  by (subst digits_of.simps) simp

lemma digits_value_snoc:
  "digits_value (ds @ [c]) = 10 * digits_value ds + (int (of_char c) - 48)"
  by (simp add: digits_value_def)

lemma digits_value_digits_of: "digits_value (digits_of n) = int n"
proof (induction n rule: digits_of.induct)
  case (1 n)
  show ?case
  proof (cases "n < 10")
    case True
    then show ?thesis by (subst digits_of.simps) (simp add: digits_value_def)
  next
    case False
    have m: "n mod 10 < 10" by simp
    have "digits_value (digits_of n) =
            10 * digits_value (digits_of (n div 10)) + (int (of_char (char_of (48 + n mod 10))) - 48)"
      using False by (subst digits_of.simps) (simp add: digits_value_snoc)
    also have "\<dots> = 10 * int (n div 10) + int (n mod 10)"
      using 1 False by (simp only: of_char_digit [OF m]) simp
    also have "\<dots> = int n" by presburger
    finally show ?thesis .
  qed
qed

lemma digits_value_zeros: "digits_value (replicate k (CHR ''0'') @ ds) = digits_value ds"
proof -
  have "fold (\<lambda>c acc. 10 * acc + (int (of_char c) - 48)) (replicate k (CHR ''0'')) 0 = 0"
    by (induction k) simp_all
  then show ?thesis by (simp add: digits_value_def)
qed


lemma is_decimal_not_int_space: "is_decimal c \<Longrightarrow> \<not> int_space c"
  by (auto simp: is_decimal_def int_space_def)

lemma int_strip_no_space:
  assumes "\<forall>c\<in>set s. \<not> int_space c"
  shows "rev (dropWhile int_space (rev (dropWhile int_space s))) = s"
proof -
  have "dropWhile int_space s = s" using assms by (cases s) simp_all
  moreover have "dropWhile int_space (rev s) = rev s" using assms by (cases "rev s") auto
  ultimately show ?thesis by simp
qed

lemma fmt_06d_nat: "fmt_06d (int n) = replicate (6 - length (digits_of n)) (CHR ''0'') @ digits_of n"
  by (simp add: fmt_06d_def Let_def)

lemma fmt_06d_decimal: "list_all is_decimal (fmt_06d (int n))"
proof -
  have z: "is_decimal (CHR ''0'')" by (simp add: is_decimal_def)
  have "\<forall>c\<in>set (digits_of n). is_decimal c"
    using digits_of_decimal [of n] by (simp add: list_all_iff)
  then show ?thesis using z by (auto simp: fmt_06d_nat list_all_iff)
qed

lemma fmt_06d_not_Nil: "fmt_06d (int n) \<noteq> []"
  by (simp add: fmt_06d_nat digits_of_not_Nil)

lemma py_int_decimal:
  assumes "list_all is_decimal ds" and "ds \<noteq> []"
  shows "py_int ds = Inr (digits_value ds)"
proof -
  have s: "rev (dropWhile int_space (rev (dropWhile int_space ds))) = ds"
    using assms(1)
    by (intro int_strip_no_space) (auto simp: list_all_iff is_decimal_not_int_space)
  obtain c cs where ds: "ds = c # cs" using assms(2) by (cases ds) auto
  have "is_decimal c" using assms(1) ds by simp
  then have c: "c \<noteq> CHR ''-''" "c \<noteq> CHR ''+''" by (auto simp: is_decimal_def)
  show ?thesis unfolding py_int_def s using assms c ds by simp
qed

lemma py_int_fmt_06d: "py_int (fmt_06d (int n)) = Inr (int n)"
  using py_int_decimal [OF fmt_06d_decimal fmt_06d_not_Nil, of n]
  by (simp add: fmt_06d_nat digits_value_zeros digits_value_digits_of)

lemma isdigit_fmt_06d: "isdigit (fmt_06d (int n))"
  using fmt_06d_decimal [of n] fmt_06d_not_Nil [of n]
  by (simp add: isdigit_def list_all_iff)

lemma split_no_sep: "sep \<notin> set s \<Longrightarrow> split sep s = [s]"
  by (induction s) auto

lemma is_decimal_chars: "is_decimal c \<Longrightarrow> c \<noteq> CHR ''_'' \<and> c \<noteq> CHR ''.''"
  by (auto simp: is_decimal_def)

lemma split_audio_name:
  "split (CHR ''_'') (audio_name (int n)) = [''audio'', fmt_06d (int n)]"
proof -
  have "CHR ''_'' \<notin> set (fmt_06d (int n))"
    using fmt_06d_decimal [of n] is_decimal_chars by (auto simp: list_all_iff)
  then show ?thesis by (simp add: audio_name_def split_no_sep)
qed

lemma path_stem_wav: "path_stem (wav_name n) = audio_name (int n)"
  by (simp add: path_stem_def wav_name_def audio_name_def Let_def)

lemma file_number_wav: "file_number (wav_name n) = Inr (int n)"
  by (simp add: file_number_def path_stem_wav split_audio_name py_int_fmt_06d)

lemma numbers_of_wav: "numbers_of (map wav_name ids) = Inr (map int ids)"
  by (induction ids) (simp_all add: file_number_wav)

lemma srv_nums_wav: "srv_nums (map wav_name ids) = Inr (map int ids)"
  by (induction ids)
     (simp_all add: path_stem_wav split_audio_name py_int_fmt_06d isdigit_fmt_06d)

lemma max_list_Max: "ns \<noteq> [] \<Longrightarrow> max_list ns = Max (set ns)"
  by (induction ns rule: max_list.induct) simp_all


lemma max_list_int: "ids \<noteq> [] \<Longrightarrow> max_list (map int ids) = int (Max (set ids))"
proof -
  assume ne: "ids \<noteq> []"
  have "max_list (map int ids) = Max (int ` set ids)"
    using ne by (simp add: max_list_Max)
  also have "\<dots> = int (Max (set ids))"
    using ne by (intro mono_Max_commute [symmetric]) (auto simp: mono_def)
  finally show ?thesis .
qed

lemma next_id_fresh: "next_id ids \<notin> set ids"
proof
  assume a: "next_id ids \<in> set ids"
  then have "ids \<noteq> []" by auto
  moreover from a have "next_id ids \<le> Max (set ids)" by simp
  ultimately show False by (simp add: next_id_def)
qed

lemma wav_name_inj:
  assumes "wav_name a = wav_name b"
  shows "a = b"
proof -
  have "file_number (wav_name a) = file_number (wav_name b)" by (simp only: assms)
  then have "(Inr (int a) :: py_error + int) = Inr (int b)" by (simp only: file_number_wav)
  then show ?thesis by simp
qed

lemma wav_name_globbed: "glob_audio_wav [wav_name n] = [wav_name n]"
  by (simp add: glob_audio_wav_def wav_name_def audio_name_def startswith_def endswith_def)

lemma in_glob: "name \<in> set dir \<Longrightarrow> glob_audio_wav [name] = [name] \<Longrightarrow> name \<in> set (glob_audio_wav dir)"
  by (auto simp: glob_audio_wav_def split: if_splits)

lemma next_num_wav:
  assumes "glob_audio_wav dir = map wav_name ids"
  shows "next_num dir = Inr (int (next_id ids))"
  using assms by (simp add: next_num_def numbers_of_wav max_list_int next_id_def)

lemma srv_next_num_wav:
  assumes "glob_audio_wav dir = map wav_name ids"
  shows "srv_next_num dir = Inr (int (next_id ids))"
  using assms by (simp add: srv_next_num_def srv_nums_wav max_list_int next_id_def)

lemma wav_name_next_fresh:
  assumes "glob_audio_wav dir = map wav_name ids"
  shows "wav_name (next_id ids) \<notin> set dir"
proof
  assume "wav_name (next_id ids) \<in> set dir"
  then have "wav_name (next_id ids) \<in> set (glob_audio_wav dir)"
    using wav_name_globbed by (rule in_glob)
  then have "wav_name (next_id ids) \<in> wav_name ` set ids" using assms by simp
  then have "next_id ids \<in> set ids" by (auto dest: wav_name_inj)
  then show False using next_id_fresh by blast
qed

lemma set_add_file: "set (add_file name dir) = insert name (set dir)"
  by (auto simp: add_file_def)

lemma set_fold_add_file: "set (fold add_file names dir) = set names \<union> set dir"
  by (induction names arbitrary: dir) (auto simp: set_add_file)

section \<open>Claims\<close>

text \<open>
  C1. From the initial state, whatever key events, timer firings, direct calls, audio
  blocks, thread ends and device changes follow, at most one input stream is open, that
  is, at most one recording session is live; and a start request that arrives while a
  session is live (a call of \<open>start_recording\<close>, whichever binding or menu item made it)
  changes nothing and raises nothing: it is not queued and the session stays as it is.
  The same holds for \<open>start_recording\<close> of \<open>panokeet_final.py\<close> over every run of its
  event callback.
\<close>

theorem C1_at_most_one_session:
  "length (open_streams (audio (run cfg tap (init dev) inputs))) \<le> 1 \<and>
   (is_recording (run cfg tap (init dev) inputs) \<longrightarrow>
      start_recording (run cfg tap (init dev) inputs) = (run cfg tap (init dev) inputs, None) \<and>
      step cfg tap (run cfg tap (init dev) inputs) (Call Start) = run cfg tap (init dev) inputs) \<and>
   length (open_streams (pf_audio (pf_run (pf_init dev) pf_inputs))) \<le> 1 \<and>
   (pf_recording (pf_run (pf_init dev) pf_inputs) \<longrightarrow>
      pf_start_recording (pf_run (pf_init dev) pf_inputs) = (pf_run (pf_init dev) pf_inputs, None))"
proof -
  have "length (open_streams (audio (run cfg tap (init dev) inputs))) \<le> 1"
    using session_inv_reachable by (rule inv_open_streams)
  moreover have "length (open_streams (pf_audio (pf_run (pf_init dev) pf_inputs))) \<le> 1"
    using pf_inv_reachable by (rule pf_inv_open_streams)
  ultimately show ?thesis
    by (simp add: start_recording_noop pf_start_recording_def)
qed

theorem C1_at_most_one_session_witness:
  "is_recording (run \<lparr>toggle_key = Some 105, hold_key = Some 107\<rparr> True (init True)
      [Key (KeyDown 107), TimerFires]) \<and>
   open_streams (audio (run \<lparr>toggle_key = Some 105, hold_key = Some 107\<rparr> True (init True)
      [Key (KeyDown 107), TimerFires])) = [0] \<and>
   run \<lparr>toggle_key = Some 105, hold_key = Some 107\<rparr> True (init True)
      [Key (KeyDown 107), TimerFires, Call Start] =
   run \<lparr>toggle_key = Some 105, hold_key = Some 107\<rparr> True (init True)
      [Key (KeyDown 107), TimerFires] \<and>
   pf_recording (pf_run (pf_init True) [PfKey (KeyDown 105)]) \<and>
   pf_start_recording (pf_run (pf_init True) [PfKey (KeyDown 105)]) =
     (pf_run (pf_init True) [PfKey (KeyDown 105)], None)"
  using C1_at_most_one_session [of "\<lparr>toggle_key = Some 105, hold_key = Some 107\<rparr>" True True
      "[Key (KeyDown 107), TimerFires]" "[PfKey (KeyDown 105)]"]
  by (simp add: init_def setup_hotkeys_def start_recording_def Recorder_start_def
      update_status_def pf_init_def pf_start_recording_def F13_KEYCODE_def Let_def)




text \<open>
  C3, as stated, fails. After a toggle, a block of audio and a second toggle the status is
  \<open>transcribing\<close> and a thread is in flight; a third toggle is not dropped: it starts a
  new recording, with a new stream open and the status \<open>recording\<close>.
\<close>

theorem C3_counterexample:
  "status (run \<lparr>toggle_key = Some 105, hold_key = Some 107\<rparr> True (init True)
      [Call Toggle, AudioBlock [0], Call Toggle]) = ''transcribing'' \<and>
   threads (run \<lparr>toggle_key = Some 105, hold_key = Some 107\<rparr> True (init True)
      [Call Toggle, AudioBlock [0], Call Toggle]) = [(0, 1 / 16000)] \<and>
   status (run \<lparr>toggle_key = Some 105, hold_key = Some 107\<rparr> True (init True)
      [Call Toggle, AudioBlock [0], Call Toggle, Call Toggle]) = ''recording'' \<and>
   is_recording (run \<lparr>toggle_key = Some 105, hold_key = Some 107\<rparr> True (init True)
      [Call Toggle, AudioBlock [0], Call Toggle, Call Toggle]) \<and>
   open_streams (audio (run \<lparr>toggle_key = Some 105, hold_key = Some 107\<rparr> True (init True)
      [Call Toggle, AudioBlock [0], Call Toggle, Call Toggle])) = [1]"
  by (simp add: init_def toggle_recording_def start_recording_def stop_recording_def
      Recorder_start_def Recorder_stop_def Recorder_callback_def update_status_def
      fresh_path_def SAMPLE_RATE_def Let_def)

text \<open>
  C3, amended. In every reachable state whose status is \<open>transcribing\<close>: a stop command is
  dropped, the state staying as it is; a toggle command is a start command; and a start
  command is not dropped: it sets \<open>is_recording\<close> and the status \<open>recording\<close>. No command
  touches the transcription in flight: the threads, the temporary files and the
  engine's runs stay as they are.
\<close>

theorem C3_commands_while_transcribing:
  assumes "s = run cfg tap (init dev) inputs" and "status s = ''transcribing''"
  shows "stop_recording s = (s, None) \<and>
         toggle_recording s = start_recording s \<and>
         is_recording (fst (start_recording s)) \<and>
         status (fst (start_recording s)) = ''recording'' \<and>
         threads (fst (start_recording s)) = threads s \<and>
         temp_files (fst (start_recording s)) = temp_files s \<and>
         engine_runs (fst (start_recording s)) = engine_runs s"
proof -
  have "session_inv s" using assms(1) session_inv_reachable by simp
  with assms(2) have "\<not> is_recording s" by (auto simp: session_inv_def)
  then show ?thesis
    by (simp add: stop_recording_noop toggle_recording_def start_recording_def
        Recorder_start_def update_status_def Let_def)
qed

theorem C3_commands_while_transcribing_witness:
  "status (run \<lparr>toggle_key = Some 105, hold_key = Some 107\<rparr> True (init True)
      [Call Toggle, AudioBlock [0], Call Toggle]) = ''transcribing'' \<and>
   stop_recording (run \<lparr>toggle_key = Some 105, hold_key = Some 107\<rparr> True (init True)
      [Call Toggle, AudioBlock [0], Call Toggle]) =
     (run \<lparr>toggle_key = Some 105, hold_key = Some 107\<rparr> True (init True)
      [Call Toggle, AudioBlock [0], Call Toggle], None) \<and>
   is_recording (fst (start_recording (run \<lparr>toggle_key = Some 105, hold_key = Some 107\<rparr> True
      (init True) [Call Toggle, AudioBlock [0], Call Toggle])))"
  using C3_commands_while_transcribing
    [of "run \<lparr>toggle_key = Some 105, hold_key = Some 107\<rparr> True (init True)
           [Call Toggle, AudioBlock [0], Call Toggle]"
        "\<lparr>toggle_key = Some 105, hold_key = Some 107\<rparr>" True True
        "[Call Toggle, AudioBlock [0], Call Toggle]"]
  by (simp add: init_def toggle_recording_def start_recording_def stop_recording_def
      Recorder_start_def Recorder_stop_def Recorder_callback_def update_status_def
      fresh_path_def SAMPLE_RATE_def Let_def)

text \<open>
  C4 fails on \<open>transcribe\<close> of \<open>transcriber.py\<close>: with the model file missing it raises
  \<open>FileNotFoundError\<close>, whatever the engine would do; it passes no timeout, so that it
  never returns when the engine's process does not exit; and it raises when the
  executable cannot be started.
\<close>

theorem C4_transcribe_raises_or_blocks:
  "transcribe False (Exits 1 0 ''hello'') = Raised FileNotFoundError \<and>
   transcribe True Hangs = Blocked \<and>
   transcribe True Missing = Raised FileNotFoundError"
  by (simp add: transcribe_def)

text \<open>
  C9 fails on \<open>app.py\<close>. With the model file missing, a recording with audio that is
  stopped leaves the status \<open>transcribing\<close> once its thread has ended (the exception ends
  the thread before \<open>update_status("ready")\<close>), with no thread left to change it. With no
  input device, a toggle leaves the status \<open>recording\<close> and \<open>is_recording\<close> set although
  no stream is open.
\<close>

theorem C9_error_leaves_status:
  "status (run \<lparr>toggle_key = Some 105, hold_key = Some 107\<rparr> True (init True)
      [Call Toggle, AudioBlock [0], Call Toggle,
       ThreadEnds 0 \<lparr>model_exists = False, engine = Exits 1 0 ''hello'', user = [],
                     disk_state = Works\<rparr>]) = ''transcribing'' \<and>
   threads (run \<lparr>toggle_key = Some 105, hold_key = Some 107\<rparr> True (init True)
      [Call Toggle, AudioBlock [0], Call Toggle,
       ThreadEnds 0 \<lparr>model_exists = False, engine = Exits 1 0 ''hello'', user = [],
                     disk_state = Works\<rparr>]) = [] \<and>
   status (run \<lparr>toggle_key = Some 105, hold_key = Some 107\<rparr> True (init False)
      [Call Toggle]) = ''recording'' \<and>
   is_recording (run \<lparr>toggle_key = Some 105, hold_key = Some 107\<rparr> True (init False)
      [Call Toggle]) \<and>
   open_streams (audio (run \<lparr>toggle_key = Some 105, hold_key = Some 107\<rparr> True (init False)
      [Call Toggle])) = []"
  by (simp add: init_def toggle_recording_def start_recording_def stop_recording_def
      Recorder_start_def Recorder_stop_def Recorder_callback_def update_status_def
      fresh_path_def SAMPLE_RATE_def end_thread_def do_transcribe_def transcribe_def Let_def)

text \<open>
  C8, as stated, fails. With AppKit's masks, the binding Cmd+89 matches the key 89 pressed
  with Cmd and Shift, although the event's modifier set, Cmd and Shift, is not the
  binding's.
\<close>

theorem C8_counterexample:
  "binding_matches appkit_masks 89 (push_bit 20 1 OR push_bit 17 1) 89 [''cmd''] \<and>
   event_mods appkit_masks (push_bit 20 1 OR push_bit 17 1) = {''cmd'', ''shift''} \<and>
   event_mods appkit_masks (push_bit 20 1 OR push_bit 17 1) \<noteq> set [''cmd'']"
  by (auto simp: binding_matches_def event_mods_def appkit_masks_def
      has_cmd_def has_shift_def has_opt_def has_ctrl_def)

text \<open>
  C8, amended. An event matches a binding exactly when its key code is the binding's and
  every modifier the binding names, among \<open>cmd\<close>, \<open>shift\<close>, \<open>opt\<close> and \<open>ctrl\<close>, is pressed in
  the event; modifiers pressed beyond those do not prevent the match. A binding with no
  modifiers matches its key code under every modifier state.
\<close>

theorem C8_modifiers_are_required_not_exact:
  "binding_matches m keycode flags key mods =
     (keycode = key \<and>
      (\<forall>md \<in> set mods. md \<in> {''cmd'', ''shift'', ''opt'', ''ctrl''} \<longrightarrow>
          md \<in> event_mods m flags)) \<and>
   binding_matches m keycode flags key [] = (keycode = key)"
proof -
  have "check_modifiers m flags mods =
          (\<forall>md \<in> set mods. md \<in> {''cmd'', ''shift'', ''opt'', ''ctrl''} \<longrightarrow>
              md \<in> event_mods m flags)"
    by (induction mods) (auto simp: event_mods_def)
  then show ?thesis by (simp add: binding_matches_def)
qed

theorem C8_modifiers_are_required_not_exact_witness:
  "binding_matches appkit_masks 89 (push_bit 20 1 OR push_bit 17 1) 89 [''cmd''] \<and>
   \<not> binding_matches appkit_masks 89 (push_bit 17 1) 89 [''cmd''] \<and>
   binding_matches appkit_masks 89 (push_bit 17 1) 89 []"
  using C8_modifiers_are_required_not_exact
    [of appkit_masks 89 "push_bit 20 1 OR push_bit 17 1" 89 "[''cmd'']"]
  by (simp add: binding_matches_def appkit_masks_def has_cmd_def)

text \<open>
  C6, as stated, fails: a number can be assigned twice. With the audio files of the
  entries 1, 3 and 4 in the directory a save assigns 5 and writes the files of entry 5;
  once the audio file of entry 5 is deleted, the next save assigns 5 again, in \<open>app.py\<close>
  and in \<open>backend/server.py\<close>, although the text file of the first entry 5 is still
  there.
\<close>

theorem C6_counterexample:
  "snd (save_training_data Works
         ((init True)\<lparr>temp_files := [(0, [0])], data_dir :=
            [''audio_000001.wav'', ''audio_000003.wav'', ''audio_000004.wav'']\<rparr>) 0 False) = Inr 5 \<and>
   data_dir (fst (save_training_data Works
         ((init True)\<lparr>temp_files := [(0, [0])], data_dir :=
            [''audio_000001.wav'', ''audio_000003.wav'', ''audio_000004.wav'']\<rparr>) 0 False)) =
     [''audio_000001.wav'', ''audio_000003.wav'', ''audio_000004.wav'',
      ''audio_000005.wav'', ''audio_000005.txt'', ''manifest.json''] \<and>
   snd (save_training_data Works
         ((init True)\<lparr>temp_files := [(0, [0])], data_dir :=
            removeAll ''audio_000005.wav''
              [''audio_000001.wav'', ''audio_000003.wav'', ''audio_000004.wav'',
               ''audio_000005.wav'', ''audio_000005.txt'', ''manifest.json'']\<rparr>) 0 False) = Inr 5 \<and>
   srv_next_num
     (removeAll ''audio_000005.wav''
        [''audio_000001.wav'', ''audio_000003.wav'', ''audio_000004.wav'',
         ''audio_000005.wav'', ''audio_000005.txt'', ''manifest.json'']) = Inr 5"
  by code_simp

text \<open>
  C6, amended. When the audio files of the directory are those of the entries with the
  numbers \<open>ids\<close> (in any order, with gaps, beside any other files), the number
  \<open>save_training_data\<close> of \<open>app.py\<close> and \<open>save_transcript\<close> of \<open>backend/server.py\<close> compute
  from the directory alone is one more than the greatest of \<open>ids\<close>, and 1 when there is
  none. It is the number of no entry whose audio file is present, and the audio file it
  names does not exist yet. The save of \<open>app.py\<close>, given its temporary audio file and a
  disk that takes every write, returns that number, adds the audio
  file and the text file of that number, the raw text file when the text was edited,
  and the manifest, and keeps every existing name: no entry is renumbered. With the
  entries 1, 3 and 4 the next number is 5. A number whose audio file is gone can be
  assigned again.
\<close>

theorem C6_next_id_is_max_plus_one:
  assumes "glob_audio_wav (data_dir s) = map wav_name ids"
  shows "next_num (data_dir s) = Inr (int (next_id ids)) \<and>
         srv_next_num (data_dir s) = Inr (int (next_id ids)) \<and>
         next_id ids \<notin> set ids \<and>
         wav_name (next_id ids) \<notin> set (data_dir s) \<and>
         (audio_path \<in> fst ` set (temp_files s) \<longrightarrow>
          snd (save_training_data Works s audio_path edited) = Inr (int (next_id ids)) \<and>
          set (data_dir (fst (save_training_data Works s audio_path edited))) =
            set (data_dir s) \<union>
            {''audio_'' @ fmt_06d (int (next_id ids)) @ ''.wav'',
             ''audio_'' @ fmt_06d (int (next_id ids)) @ ''.txt'',
             ''manifest.json''} \<union>
            (if edited then {''audio_'' @ fmt_06d (int (next_id ids)) @ ''_raw.txt''} else {}))"
proof -
  have "set (fold add_file (entry_files (int (next_id ids)) edited) (data_dir s)) =
          set (data_dir s) \<union>
           {''audio_'' @ fmt_06d (int (next_id ids)) @ ''.wav'',
            ''audio_'' @ fmt_06d (int (next_id ids)) @ ''.txt'',
            ''manifest.json''} \<union>
           (if edited then {''audio_'' @ fmt_06d (int (next_id ids)) @ ''_raw.txt''} else {})"
  proof -
    have "set (entry_files (int (next_id ids)) edited) =
            {''audio_'' @ fmt_06d (int (next_id ids)) @ ''.wav'',
             ''audio_'' @ fmt_06d (int (next_id ids)) @ ''.txt'',
             ''manifest.json''} \<union>
            (if edited then {''audio_'' @ fmt_06d (int (next_id ids)) @ ''_raw.txt''} else {})"
      by (auto simp: entry_files_def audio_name_def)
    then show ?thesis
      by (simp only: set_fold_add_file) auto
  qed
  then show ?thesis
    using assms next_num_wav [OF assms] srv_next_num_wav [OF assms] next_id_fresh [of ids]
      wav_name_next_fresh [OF assms]
    by (simp add: save_training_data_def)
qed

theorem C6_next_id_is_max_plus_one_witness:
  "glob_audio_wav [''audio_000001.wav'', ''audio_000001.txt'', ''audio_000004.wav'',
      ''audio_000003.wav'', ''audio_000003.txt'', ''audio_000003_raw.txt'', ''manifest.json''] =
     map wav_name [1, 4, 3] \<and>
   next_id [1, 4, 3] = 5 \<and>
   next_num [''audio_000001.wav'', ''audio_000001.txt'', ''audio_000004.wav'',
      ''audio_000003.wav'', ''audio_000003.txt'', ''audio_000003_raw.txt'', ''manifest.json''] = Inr 5 \<and>
   snd (save_training_data Works
     ((init True)\<lparr>temp_files := [(0, [0])],
        data_dir := [''audio_000001.wav'', ''audio_000001.txt'', ''audio_000004.wav'',
          ''audio_000003.wav'', ''audio_000003.txt'', ''audio_000003_raw.txt'',
          ''manifest.json'']\<rparr>) 0 False) = Inr 5"
proof -
  let ?dir = "[''audio_000001.wav'', ''audio_000001.txt'', ''audio_000004.wav'',
      ''audio_000003.wav'', ''audio_000003.txt'', ''audio_000003_raw.txt'', ''manifest.json'']"
  have w: "wav_name 1 = ''audio_000001.wav''" "wav_name 4 = ''audio_000004.wav''"
    "wav_name 3 = ''audio_000003.wav''"
    by code_simp+
  have m: "map wav_name [1, 4, 3] = [''audio_000001.wav'', ''audio_000004.wav'', ''audio_000003.wav'']"
    by (simp only: list.map w)
  have g: "glob_audio_wav ?dir = map wav_name [1, 4, 3]"
    unfolding m by (simp add: glob_audio_wav_def startswith_def endswith_def)
  have n: "next_id [1, 4, 3] = 5" by (simp add: next_id_def)
  show ?thesis
    using C6_next_id_is_max_plus_one
      [of "(init True)\<lparr>temp_files := [(0, [0])], data_dir := ?dir\<rparr>" "[1, 4, 3]" 0 False] g n
    by simp
qed

text \<open>
  C7. When a recording session ends with no block of audio captured, \<open>Recorder.stop\<close>
  returns \<open>None\<close>, and \<open>stop_recording\<close> leaves the application with the status \<open>ready\<close>
  and not recording, starts no transcription thread, runs the engine on nothing and
  writes no temporary file.
\<close>

theorem C7_zero_audio_back_to_ready:
  assumes "is_recording s" and "audio_data (recorder s) = []"
  shows "snd (Recorder_stop (audio s) (temp_files s) (recorder s)) = None \<and>
         status (fst (stop_recording s)) = ''ready'' \<and>
         \<not> is_recording (fst (stop_recording s)) \<and>
         threads (fst (stop_recording s)) = threads s \<and>
         engine_runs (fst (stop_recording s)) = engine_runs s \<and>
         temp_files (fst (stop_recording s)) = temp_files s \<and>
         snd (stop_recording s) = None"
  using assms
  by (simp add: stop_recording_def Recorder_stop_def update_status_def Let_def
      split: option.splits)

theorem C7_zero_audio_back_to_ready_witness:
  "is_recording (run \<lparr>toggle_key = Some 105, hold_key = Some 107\<rparr> True (init True) [Call Toggle]) \<and>
   audio_data (recorder
     (run \<lparr>toggle_key = Some 105, hold_key = Some 107\<rparr> True (init True) [Call Toggle])) = [] \<and>
   status (run \<lparr>toggle_key = Some 105, hold_key = Some 107\<rparr> True (init True)
     [Call Toggle]) = ''recording'' \<and>
   status (fst (stop_recording
     (run \<lparr>toggle_key = Some 105, hold_key = Some 107\<rparr> True (init True) [Call Toggle]))) = ''ready'' \<and>
   threads (fst (stop_recording
     (run \<lparr>toggle_key = Some 105, hold_key = Some 107\<rparr> True (init True) [Call Toggle]))) = []"
  using C7_zero_audio_back_to_ready
    [of "run \<lparr>toggle_key = Some 105, hold_key = Some 107\<rparr> True (init True) [Call Toggle]"]
  by (simp add: init_def toggle_recording_def start_recording_def Recorder_start_def
      update_status_def Let_def)

text \<open>
  C10. For every transcription shown and whatever the user does, the popup's \<open>was_edited\<close>
  is true exactly when the text it returns differs from the text it showed; and on every
  cancel path (Escape, or the session ending without Done) the result has the action
  \<open>cancel\<close>, the text that was shown, and \<open>was_edited\<close> false.
\<close>

theorem C10_popup_was_edited:
  "was_edited (show_transcription_popup t evs) =
     (final_text (show_transcription_popup t evs) \<noteq> t) \<and>
   (cancel_path evs \<longrightarrow>
      action (show_transcription_popup t evs) = ''cancel'' \<and>
      final_text (show_transcription_popup t evs) = t \<and>
      \<not> was_edited (show_transcription_popup t evs))"
  using modal_result [of "show_init t" t evs]
  by (simp add: show_transcription_popup_def show_init_def split: if_splits)

theorem C10_popup_was_edited_witness:
  "cancel_path [KeyPress 0 0 ''Helo'', KeyPress 53 0 ''Helo''] \<and>
   action (show_transcription_popup ''Hello''
     [KeyPress 0 0 ''Helo'', KeyPress 53 0 ''Helo'']) = ''cancel'' \<and>
   final_text (show_transcription_popup ''Hello''
     [KeyPress 0 0 ''Helo'', KeyPress 53 0 ''Helo'']) = ''Hello'' \<and>
   \<not> was_edited (show_transcription_popup ''Hello''
     [KeyPress 0 0 ''Helo'', KeyPress 53 0 ''Helo''])"
  using C10_popup_was_edited [of "''Hello''" "[KeyPress 0 0 ''Helo'', KeyPress 53 0 ''Helo'']"]
  by simp

text \<open>
  C5. For every engine output, the cleaning step of \<open>transcribe\<close> trims each line, drops
  the lines that are empty after trimming and joins the remaining lines with a single
  space; the output made of the line \<open>Hello\<close>, the line \<open>world\<close> with two spaces on each
  side and two empty lines is cleaned to exactly \<open>Hello world\<close>.
\<close>

theorem C5_clean_output_normalizes:
  "clean_output stdout = spec_normalize stdout \<and>
   clean_output (''Hello'' @ [CHR 0x0A] @ ''  world  '' @ [CHR 0x0A, CHR 0x0A]) = ''Hello world''"
proof
  show "clean_output stdout = spec_normalize stdout"
    by (simp add: clean_output_stripped_lines spec_normalize_def stripped_lines_def)
  show "clean_output (''Hello'' @ [CHR 0x0A] @ ''  world  '' @ [CHR 0x0A, CHR 0x0A]) = ''Hello world''"
    by (simp add: clean_output_def strip_def lstrip_def rstrip_def isspace_def)
qed

end
